theory Spec2Isabelle
  imports Complex_Main "HOL-Library.AList" "HOL-Library.Multiset"
begin

section \<open>Values, dictionaries and the environment\<close>

text \<open>
  The library is written in Python. The values the model covers, for the network state
  and for the attributes of a neuron: an integer, a float, a boolean, a string,
  \<open>None\<close> (\<open>PNone\<close>), a list, a tuple, a set (with its items in some order) and a
  bytes object. A value of another type (a dict, an object of a class) is not covered.
  Python floats are modelled by the reals: rounding is not part of the model.
\<close>

datatype pyval =
  PInt int | PFloat real | PBool bool | PStr string | PNone
| PList "pyval list" | PTuple "pyval list" | PSet "pyval list" | PBytes string

datatype pytype = T_int | T_float | T_bool | T_str

text \<open>
  \<open>isinstance(value, t)\<close>. In Python \<open>bool\<close> is a subclass of \<open>int\<close>, so a
  boolean is an instance of \<open>int\<close> as well.
\<close>

fun isinstance :: "pyval \<Rightarrow> pytype \<Rightarrow> bool" where
  "isinstance (PInt _) t = (t = T_int)"
| "isinstance (PFloat _) t = (t = T_float)"
| "isinstance (PBool _) t = (t = T_bool \<or> t = T_int)"
| "isinstance (PStr _) t = (t = T_str)"
| "isinstance PNone t = False"
| "isinstance (PList _) t = False"
| "isinstance (PTuple _) t = False"
| "isinstance (PSet _) t = False"
| "isinstance (PBytes _) t = False"

text \<open>\<open>float(value)\<close> for a value that is an instance of \<open>int\<close> or \<open>float\<close>;
  \<open>float(True)\<close> is \<open>1.0\<close> and \<open>float(False)\<close> is \<open>0.0\<close>.\<close>

fun py_float :: "pyval \<Rightarrow> real" where
  "py_float (PInt i) = real_of_int i"
| "py_float (PFloat r) = r"
| "py_float (PBool b) = (if b then 1 else 0)"
| "py_float (PStr _) = 0"
| "py_float PNone = 0"
| "py_float (PList _) = 0"
| "py_float (PTuple _) = 0"
| "py_float (PSet _) = 0"
| "py_float (PBytes _) = 0"

text \<open>Truth value of a Python value, as \<open>if value\<close> tests it.\<close>

fun truthy :: "pyval \<Rightarrow> bool" where
  "truthy (PInt i) = (i \<noteq> 0)"
| "truthy (PFloat r) = (r \<noteq> 0)"
| "truthy (PBool b) = b"
| "truthy (PStr s) = (s \<noteq> [])"
| "truthy PNone = False"
| "truthy (PList xs) = (xs \<noteq> [])"
| "truthy (PTuple xs) = (xs \<noteq> [])"
| "truthy (PSet xs) = (xs \<noteq> [])"
| "truthy (PBytes s) = (s \<noteq> [])"

text \<open>
  A Python \<open>dict\<close> keeps its keys in insertion order: it is an association list with
  distinct keys. \<open>d[k] = v\<close> is \<open>AList.update k v d\<close> (the value is replaced in place,
  a new key goes to the end), \<open>k in d\<close> is \<open>dict_in\<close>, \<open>d.get(k, default)\<close> is
  \<open>dict_get\<close>.
\<close>

type_synonym ('k, 'v) dict = "('k \<times> 'v) list"

definition dict_in :: "'k \<Rightarrow> ('k, 'v) dict \<Rightarrow> bool" where
  "dict_in k d = (map_of d k \<noteq> None)"

definition dict_get :: "('k, 'v) dict \<Rightarrow> 'k \<Rightarrow> 'v \<Rightarrow> 'v" where
  "dict_get d k dflt = (case map_of d k of None \<Rightarrow> dflt | Some v \<Rightarrow> v)"

definition dict_keys :: "('k, 'v) dict \<Rightarrow> 'k list" where
  "dict_keys d = map fst d"

section \<open>Errors, clock and random numbers\<close>

text \<open>
  An exception is a value: a function that can raise returns \<open>Inl\<close> of the error.
  \<open>ValueError\<close> and \<open>KeyError\<close> carry their message or key,
  \<open>ModuleNotFoundError\<close> the name of the module.
\<close>

datatype error =
  ValueError string | KeyError string | TypeError | ZeroDivisionError | IndexError | AttributeError
| ModuleNotFoundError string

text \<open>
  The environment of a call: the successive readings of \<open>time.time()\<close> (and of
  \<open>datetime.now()\<close>), the successive values of \<open>random.random()\<close> and the
  successive raw integers the generator hands to \<open>random.sample\<close> and
  \<open>random.shuffle\<close>. Reading one consumes it.
\<close>

record world =
  clock :: "nat \<Rightarrow> real"
  random_draws :: "nat \<Rightarrow> real"
  integer_draws :: "nat \<Rightarrow> nat"

definition time_time :: "world \<Rightarrow> real \<times> world" where
  "time_time wd = (clock wd 0, wd\<lparr>clock := (\<lambda>n. clock wd (Suc n))\<rparr>)"

definition random_random :: "world \<Rightarrow> real \<times> world" where
  "random_random wd = (random_draws wd 0, wd\<lparr>random_draws := (\<lambda>n. random_draws wd (Suc n))\<rparr>)"

text \<open>\<open>random.uniform(a, b)\<close> is \<open>a + (b - a) * random()\<close>.\<close>

definition random_uniform :: "real \<Rightarrow> real \<Rightarrow> world \<Rightarrow> real \<times> world" where
  "random_uniform a b wd = (case random_random wd of (u, wd1) \<Rightarrow> (a + (b - a) * u, wd1))"

text \<open>An index below \<open>n\<close> (for \<open>0 < n\<close>), taken from the next raw integer.\<close>

definition randbelow :: "nat \<Rightarrow> world \<Rightarrow> nat \<times> world" where
  "randbelow n wd = (integer_draws wd 0 mod n, wd\<lparr>integer_draws := (\<lambda>k. integer_draws wd (Suc k))\<rparr>)"

text \<open>
  \<open>random.sample(population, k)\<close>: \<open>k\<close> draws without replacement. Each draw takes
  a random position of the pool and moves the last pool element into the hole.
\<close>

fun sample_pool :: "'a list \<Rightarrow> nat \<Rightarrow> world \<Rightarrow> 'a list \<times> world" where
  "sample_pool pool 0 wd = ([], wd)"
| "sample_pool pool (Suc k) wd =
     (if pool = [] then ([], wd)
      else case randbelow (length pool) wd of (j, wd1) \<Rightarrow>
        (case sample_pool (butlast (pool[j := last pool])) k wd1 of (rest, wd2) \<Rightarrow>
           (pool ! j # rest, wd2)))"

definition random_sample :: "'a list \<Rightarrow> nat \<Rightarrow> world \<Rightarrow> 'a list \<times> world" where
  "random_sample population k wd = sample_pool population k wd"

text \<open>
  \<open>random.shuffle(x)\<close>: for \<open>i\<close> from \<open>len(x) - 1\<close> down to \<open>1\<close>, swap
  \<open>x[i]\<close> with \<open>x[j]\<close> for a random \<open>j \<le> i\<close>.
\<close>

fun shuffle_from :: "nat \<Rightarrow> 'a list \<Rightarrow> world \<Rightarrow> 'a list \<times> world" where
  "shuffle_from 0 xs wd = (xs, wd)"
| "shuffle_from (Suc i) xs wd =
     (case randbelow (Suc (Suc i)) wd of (j, wd1) \<Rightarrow>
        shuffle_from i (xs[Suc i := xs ! j, j := xs ! Suc i]) wd1)"

definition random_shuffle :: "'a list \<Rightarrow> world \<Rightarrow> 'a list \<times> world" where
  "random_shuffle xs wd = shuffle_from (length xs - 1) xs wd"

section \<open>Connection\<close>

text \<open>
  \<open>weight\<close> is the attribute \<open>_weight\<close>; \<open>weight_history\<close> holds the pairs
  \<open>(timestamp, weight)\<close>.
\<close>

record connection =
  source :: string
  target :: string
  weight :: real
  last_update :: real
  creation_time :: real
  weight_history :: "(real \<times> real) list"
  bidirectional :: bool

definition get_weight :: "connection \<Rightarrow> real" where
  "get_weight c = weight c"

text \<open>
  \<open>Connection.set_weight\<close>: clamp to \<open>[-1, 1]\<close>, stamp the time, append to the
  history and keep its last 100 entries. Returns the clamped weight.
\<close>

definition set_weight :: "connection \<Rightarrow> real \<Rightarrow> world \<Rightarrow> (real \<times> connection) \<times> world" where
  "set_weight c w wd =
     (case time_time wd of (t1, wd1) \<Rightarrow>
      case time_time wd1 of (t2, wd2) \<Rightarrow>
        (let w' = max (-1) (min 1 w);
             h = weight_history c @ [(t2, w')];
             h' = (if length h > 100 then drop (length h - 100) h else h)
         in ((w', c\<lparr>weight := w', last_update := t1, weight_history := h'\<rparr>), wd2)))"

text \<open>
  \<open>Connection.__init__\<close>: the weight starts at 0 with an empty history, then
  \<open>set_weight\<close> stores the requested weight.
\<close>

definition Connection_init :: "string \<Rightarrow> string \<Rightarrow> real \<Rightarrow> bool \<Rightarrow> world \<Rightarrow> connection \<times> world" where
  "Connection_init src tgt w bidir wd =
     (case time_time wd of (t1, wd1) \<Rightarrow>
      case time_time wd1 of (t2, wd2) \<Rightarrow>
      case set_weight \<lparr>source = src, target = tgt, weight = 0, last_update = t1,
             creation_time = t2, weight_history = [], bidirectional = bidir\<rparr> w wd2 of
        ((_, c), wd3) \<Rightarrow> (c, wd3))"

definition apply_decay :: "connection \<Rightarrow> real \<Rightarrow> world \<Rightarrow> (real \<times> connection) \<times> world" where
  "apply_decay c decay_factor wd = set_weight c (weight c * (1 - decay_factor)) wd"

section \<open>Neuron and configuration\<close>

text \<open>
  A position is a tuple \<open>(x, y)\<close>, as \<open>Neuron.__init__\<close> and the neurogenesis
  helper make it, or a list \<open>[x, y]\<close>, as \<open>json.load\<close> gives it. \<open>coordinates\<close>
  gives the two numbers, as the unpacking \<open>x, y = position\<close> does.
\<close>

datatype xy_position = PosTuple real real | PosList real real

fun coordinates :: "xy_position \<Rightarrow> real \<times> real" where
  "coordinates (PosTuple x y) = (x, y)"
| "coordinates (PosList x y) = (x, y)"

text \<open>\<open>neuron_type\<close> is the attribute \<open>type\<close>.\<close>

record neuron =
  name :: string
  position :: xy_position
  neuron_type :: string
  attributes :: "(string, pyval) dict"
  activity_history :: "real list"

text \<open>\<open>Neuron.__init__\<close>: \<open>position or (0, 0)\<close> and \<open>attributes or {}\<close>.\<close>

definition Neuron_init ::
  "string \<Rightarrow> xy_position option \<Rightarrow> string \<Rightarrow> (string, pyval) dict option \<Rightarrow> neuron" where
  "Neuron_init nm pos ty attrs =
     \<lparr>name = nm,
      position = (case pos of None \<Rightarrow> PosTuple 0 0 | Some p \<Rightarrow> p),
      neuron_type = ty,
      attributes = (case attrs of None \<Rightarrow> [] | Some a \<Rightarrow> a),
      activity_history = []\<rparr>"

definition get_position :: "neuron \<Rightarrow> xy_position" where
  "get_position n = position n"

text \<open>The configuration: three dictionaries of named numeric parameters.\<close>

record config =
  hebbian :: "(string, real) dict"
  neurogenesis :: "(string, real) dict"
  combined :: "(string, real) dict"

definition Config_init :: config where
  "Config_init =
     \<lparr>hebbian =
        [(''base_learning_rate'', 1 / 10), (''threshold'', 7 / 10), (''weight_decay'', 1 / 100),
         (''max_weight'', 1), (''min_weight'', - 1), (''learning_interval'', 30000),
         (''active_threshold'', 50)],
      neurogenesis =
        [(''novelty_threshold'', 3), (''stress_threshold'', 7 / 10), (''reward_threshold'', 6 / 10),
         (''cooldown'', 300), (''decay_rate'', 95 / 100),
         (''new_neuron_connection_strength'', 3 / 10), (''highlight_duration'', 5)],
      combined =
        [(''neurogenesis_learning_boost'', 15 / 10), (''goal_reinforcement_factor'', 2)]\<rparr>"

section \<open>The learning helpers' own state\<close>

text \<open>One entry of \<open>HebbianLearning.learning_events\<close>.\<close>

record learning_event =
  timestamp :: real
  neuron1 :: string
  neuron2 :: string
  value1 :: real
  value2 :: real
  prev_weight_forward :: real
  new_weight_forward :: real
  prev_weight_backward :: real
  new_weight_backward :: real
  event_learning_rate :: real

text \<open>
  \<open>HebbianLearning\<close> without its references to the network and to the network's
  configuration, which the functions below take from the network they are given.
  \<open>hebbian_excluded_neurons\<close> is the helper's own \<open>excluded_neurons\<close>.
\<close>

record hebbian_learning =
  last_learning_time :: real
  learning_events :: "learning_event list"
  hebbian_excluded_neurons :: "string list"
  learning_rate :: real

text \<open>\<open>Neurogenesis.neurogenesis_data\<close>, one field per key.\<close>

record neurogenesis_data =
  novelty_counter :: real
  stress_counter :: real
  reward_counter :: real
  new_neurons :: "string list"
  last_neuron_time :: real

section \<open>Network\<close>

text \<open>
  \<open>network_creation_time\<close> is the network's \<open>creation_time\<close>,
  \<open>neurogenesis_helper\<close> its attribute \<open>neurogenesis\<close>.
\<close>

record network =
  config :: config
  neurons :: "(string, neuron) dict"
  connections :: "(string \<times> string, connection) dict"
  state :: "(string, pyval) dict"
  network_creation_time :: real
  last_update_time :: real
  update_count :: nat
  excluded_neurons :: "string list"
  learning :: "hebbian_learning option"
  neurogenesis_helper :: "neurogenesis_data option"

definition Network_init :: "config option \<Rightarrow> world \<Rightarrow> network \<times> world" where
  "Network_init cfg wd =
     (case time_time wd of (t1, wd1) \<Rightarrow>
      case time_time wd1 of (t2, wd2) \<Rightarrow>
        (\<lparr>config = (case cfg of None \<Rightarrow> Config_init | Some c \<Rightarrow> c),
          neurons = [], connections = [], state = [],
          network_creation_time = t1, last_update_time = t2, update_count = 0,
          excluded_neurons = [], learning = None, neurogenesis_helper = None\<rparr>, wd2))"

definition quoted :: "string \<Rightarrow> string" where
  "quoted s = [CHR 0x27] @ s @ [CHR 0x27]"

text \<open>\<open>Network.add_neuron\<close>: raises when the name is taken, before anything changes.\<close>

definition add_neuron ::
  "network \<Rightarrow> string \<Rightarrow> pyval \<Rightarrow> xy_position option \<Rightarrow> string \<Rightarrow>
   (string, pyval) dict option \<Rightarrow> error + (neuron \<times> network)" where
  "add_neuron net nm initial_state pos ty attrs =
     (if dict_in nm (neurons net)
      then Inl (ValueError (''Neuron '' @ quoted nm @ '' already exists''))
      else let n = Neuron_init nm pos ty attrs
           in Inr (n, net\<lparr>neurons := AList.update nm n (neurons net),
                          state := AList.update nm initial_state (state net)\<rparr>))"

text \<open>
  \<open>Network.connect\<close>: both endpoints must be neurons. With \<open>bidirectional\<close> the
  reverse connection is created too, unless one exists already.
\<close>

definition connect ::
  "network \<Rightarrow> string \<Rightarrow> string \<Rightarrow> real \<Rightarrow> bool \<Rightarrow> world \<Rightarrow>
   error + (connection \<times> network \<times> world)" where
  "connect net src tgt w bidir wd =
     (if \<not> dict_in src (neurons net)
      then Inl (ValueError (''Source neuron '' @ quoted src @ '' does not exist''))
      else if \<not> dict_in tgt (neurons net)
      then Inl (ValueError (''Target neuron '' @ quoted tgt @ '' does not exist''))
      else case Connection_init src tgt w bidir wd of (c, wd1) \<Rightarrow>
        (let conns1 = AList.update (src, tgt) c (connections net)
         in if bidir \<and> \<not> dict_in (tgt, src) conns1
            then case Connection_init tgt src w True wd1 of (c2, wd2) \<Rightarrow>
                   Inr (c, net\<lparr>connections := AList.update (tgt, src) c2 conns1\<rparr>, wd2)
            else Inr (c, net\<lparr>connections := conns1\<rparr>, wd1)))"

text \<open>
  \<open>Network.get_neuron_value\<close>. The source tests \<open>isinstance(value, (int, float))\<close>
  first, then \<open>isinstance(value, bool)\<close>, then \<open>isinstance(value, str)\<close>.
\<close>

definition get_neuron_value :: "network \<Rightarrow> string \<Rightarrow> real" where
  "get_neuron_value net neuron_name =
     (let v = dict_get (state net) neuron_name (PInt 0)
      in if isinstance v T_int \<or> isinstance v T_float then py_float v
         else if isinstance v T_bool then (if truthy v then 100 else 0)
         else if isinstance v T_str then 75
         else 0)"

text \<open>
  \<open>Network.propagate_activation\<close>. The inner loop over the sources accumulates
  \<open>(incoming, count)\<close>; the outer loop over the targets writes into \<open>new_state\<close>, a
  copy of the state, while every value is read from the network's state, which is
  replaced only at the end of the step. The source assigns the blend to
  \<open>new_state[target]\<close> and then the clamped blend to the same key; the one update
  with the clamped blend has the same effect.
\<close>

definition incoming_step :: "network \<Rightarrow> string \<Rightarrow> string \<Rightarrow> real \<times> nat \<Rightarrow> real \<times> nat" where
  "incoming_step net tgt src acc =
     (case map_of (connections net) (src, tgt) of
        None \<Rightarrow> acc
      | Some c \<Rightarrow> (fst acc + get_neuron_value net src * get_weight c, snd acc + 1))"

definition incoming_total :: "network \<Rightarrow> string \<Rightarrow> real \<times> nat" where
  "incoming_total net tgt = fold (incoming_step net tgt) (dict_keys (neurons net)) (0, 0)"

text \<open>
  \<open>max(0, min(100, x))\<close> returns the float \<open>x\<close> when \<open>0 < x < 100\<close>, and the
  integer \<open>100\<close> or \<open>0\<close> otherwise.
\<close>

definition clamp_0_100 :: "real \<Rightarrow> pyval" where
  "clamp_0_100 x = (if x < 100 then (if 0 < x then PFloat x else PInt 0) else PInt 100)"

definition propagate_target :: "network \<Rightarrow> string \<Rightarrow> (string, pyval) dict \<Rightarrow> (string, pyval) dict" where
  "propagate_target net tgt new_state =
     (case incoming_total net tgt of (incoming, cnt) \<Rightarrow>
        if cnt > 0
        then let normalized = incoming / real cnt;
                 current = get_neuron_value net tgt
             in AList.update tgt (clamp_0_100 (current * (7 / 10) + normalized * (3 / 10))) new_state
        else new_state)"

definition propagate_step :: "network \<Rightarrow> network" where
  "propagate_step net =
     net\<lparr>state := fold (propagate_target net) (dict_keys (neurons net)) (state net)\<rparr>"

primrec propagate_activation :: "network \<Rightarrow> nat \<Rightarrow> network" where
  "propagate_activation net 0 = net"
| "propagate_activation net (Suc steps) = propagate_activation (propagate_step net) steps"

section \<open>Hebbian learning\<close>

text \<open>
  The helper keeps a reference to the network and to the network's configuration
  object; here every function takes the network as an argument and reads the
  configuration from it.
\<close>

definition HebbianLearning_init :: "network \<Rightarrow> world \<Rightarrow> hebbian_learning \<times> world" where
  "HebbianLearning_init net wd =
     (case time_time wd of (t, wd1) \<Rightarrow>
        (\<lparr>last_learning_time = t, learning_events = [], hebbian_excluded_neurons = [],
          learning_rate = dict_get (hebbian (config net)) ''base_learning_rate'' (1 / 10)\<rparr>, wd1))"

text \<open>
  \<open>HebbianLearning._update_connection\<close>, in three parts. First each of the two
  connections is created with weight 0 when it is missing (\<open>ensure_connection\<close>,
  once per direction); an error can only come from \<open>connect\<close> there, before anything
  has changed.
\<close>

definition ensure_connection ::
  "network \<Rightarrow> string \<Rightarrow> string \<Rightarrow> world \<Rightarrow> error + (network \<times> world)" where
  "ensure_connection net a b wd =
     (if \<not> dict_in (a, b) (connections net)
      then (case connect net a b 0 False wd of
              Inl e \<Rightarrow> Inl e
            | Inr (_, net', wd') \<Rightarrow> Inr (net', wd'))
      else Inr (net, wd))"

text \<open>
  Then both previous weights are read, the same change is added to both connections
  and the event is logged. The second \<open>set_weight\<close> acts on the connection object as
  the first one left it, which matters only when both keys are the same.
\<close>

definition reinforce ::
  "hebbian_learning \<Rightarrow> network \<Rightarrow> string \<Rightarrow> string \<Rightarrow> real \<Rightarrow> real \<Rightarrow>
   connection \<Rightarrow> connection \<Rightarrow> world \<Rightarrow> hebbian_learning \<times> network \<times> world" where
  "reinforce h net n1 n2 v1 v2 forward_conn backward_conn wd =
     (let prev_f = get_weight forward_conn;
          prev_b = get_weight backward_conn;
          norm1 = v1 / 100;
          norm2 = v2 / 100;
          rate = learning_rate h;
          weight_change = rate * norm1 * norm2
      in case set_weight forward_conn (prev_f + weight_change) wd of
           ((_, fc), wd3) \<Rightarrow>
      case set_weight (if (n2, n1) = (n1, n2) then fc else backward_conn)
             (prev_b + weight_change) wd3 of
           ((_, bc), wd4) \<Rightarrow>
      case time_time wd4 of
           (now, wd5) \<Rightarrow>
        (let conns4 = AList.update (n2, n1) bc (AList.update (n1, n2) fc (connections net));
             event = \<lparr>timestamp = now, neuron1 = n1, neuron2 = n2,
                      value1 = v1, value2 = v2,
                      prev_weight_forward = prev_f,
                      new_weight_forward = get_weight (if (n2, n1) = (n1, n2) then bc else fc),
                      prev_weight_backward = prev_b,
                      new_weight_backward = get_weight bc,
                      event_learning_rate = rate\<rparr>;
             evs = learning_events h @ [event];
             evs' = (if length evs > 100 then drop (length evs - 100) evs else evs)
         in (h\<lparr>learning_events := evs'\<rparr>, net\<lparr>connections := conns4\<rparr>, wd5)))"

definition update_connection ::
  "hebbian_learning \<Rightarrow> network \<Rightarrow> string \<Rightarrow> string \<Rightarrow> real \<Rightarrow> real \<Rightarrow> world \<Rightarrow>
   error + (hebbian_learning \<times> network \<times> world)" where
  "update_connection h net n1 n2 v1 v2 wd =
     (case ensure_connection net n1 n2 wd of
        Inl e \<Rightarrow> Inl e
      | Inr (net1, wd1) \<Rightarrow>
     (case ensure_connection net1 n2 n1 wd1 of
        Inl e \<Rightarrow> Inl e
      | Inr (net2, wd2) \<Rightarrow>
     (case map_of (connections net2) (n1, n2) of
        None \<Rightarrow> Inl (KeyError ''connection'')
      | Some forward_conn \<Rightarrow>
     (case map_of (connections net2) (n2, n1) of
        None \<Rightarrow> Inl (KeyError ''connection'')
      | Some backward_conn \<Rightarrow>
          Inr (reinforce h net2 n1 n2 v1 v2 forward_conn backward_conn wd2)))))"

text \<open>
  The loop over the sampled pairs of \<open>perform_hebbian_learning\<close>. The state at the
  moment of an error is returned with the error.
\<close>

fun learn_pairs ::
  "hebbian_learning \<Rightarrow> network \<Rightarrow> string list \<Rightarrow> real \<Rightarrow> (nat \<times> nat) list \<Rightarrow>
   (string \<times> string) list \<Rightarrow> world \<Rightarrow>
   (error + (string \<times> string) list) \<times> hebbian_learning \<times> network \<times> world" where
  "learn_pairs h net active thr [] updated wd = (Inr updated, h, net, wd)"
| "learn_pairs h net active thr ((i, j) # ps) updated wd =
     (if i < length active \<and> j < length active
      then let n1 = active ! i;
               n2 = active ! j;
               v1 = get_neuron_value net n1;
               v2 = get_neuron_value net n2
           in if v1 > thr \<and> v2 > thr
              then case update_connection h net n1 n2 v1 v2 wd of
                     Inl e \<Rightarrow> (Inl e, h, net, wd)
                   | Inr (h', net', wd') \<Rightarrow>
                       learn_pairs h' net' active thr ps (updated @ [(n1, n2)]) wd'
              else learn_pairs h net active thr ps updated wd
      else (Inl IndexError, h, net, wd))"

text \<open>
  \<open>HebbianLearning.perform_hebbian_learning\<close>. \<open>min_interval\<close> is the constant 5 of
  the source; the configuration's \<open>learning_interval\<close> is not read.
\<close>

definition perform_hebbian_learning ::
  "hebbian_learning \<Rightarrow> network \<Rightarrow> world \<Rightarrow>
   (error + (string \<times> string) list) \<times> hebbian_learning \<times> network \<times> world" where
  "perform_hebbian_learning h net wd =
     (case time_time wd of (current_time, wd1) \<Rightarrow>
        let min_interval = 5
        in if current_time - last_learning_time h < min_interval then (Inr [], h, net, wd1)
           else
             let h1 = h\<lparr>last_learning_time := current_time\<rparr>;
                 threshold = dict_get (hebbian (config net)) ''active_threshold'' 50;
                 active_neurons =
                   filter (\<lambda>nm. nm \<notin> set (hebbian_excluded_neurons h1) \<and>
                                 get_neuron_value net nm > threshold)
                          (dict_keys (state net))
             in if length active_neurons < 2 then (Inr [], h1, net, wd1)
                else
                  let n = length active_neurons;
                      sample_size = min 2 (n * (n - 1) div 2);
                      neuron_pairs = concat (map (\<lambda>i. map (\<lambda>j. (i, j)) [i + 1 ..< n]) [0 ..< n])
                  in case (if length neuron_pairs > sample_size
                           then random_sample neuron_pairs sample_size wd1
                           else (neuron_pairs, wd1)) of
                       (sampled_pairs, wd2) \<Rightarrow>
                         learn_pairs h1 net active_neurons threshold sampled_pairs [] wd2)"

definition modify_learning_rate :: "hebbian_learning \<Rightarrow> network \<Rightarrow> real \<Rightarrow> real \<times> hebbian_learning" where
  "modify_learning_rate h net factor =
     (let base_rate = dict_get (hebbian (config net)) ''base_learning_rate'' (1 / 10)
      in (base_rate * factor, h\<lparr>learning_rate := base_rate * factor\<rparr>))"

section \<open>Neurogenesis\<close>

definition Neurogenesis_init :: "network \<Rightarrow> world \<Rightarrow> neurogenesis_data \<times> world" where
  "Neurogenesis_init net wd =
     (case time_time wd of (t, wd1) \<Rightarrow>
        (\<lparr>novelty_counter = 0, stress_counter = 0, reward_counter = 0, new_neurons = [],
          last_neuron_time = t\<rparr>, wd1))"





text \<open>The decimal digits of a number, as an f-string prints it.\<close>

definition digit_char :: "nat \<Rightarrow> char" where
  "digit_char d = ''0123456789'' ! d"

fun string_of_nat :: "nat \<Rightarrow> string" where
  "string_of_nat n =
     (if n < 10 then [digit_char n]
      else string_of_nat (n div 10) @ [digit_char (n mod 10)])"

declare string_of_nat.simps [simp del]

text \<open>
  \<open>counter += value\<close> for a float counter: a number (or a boolean, which counts as 0
  or 1) is added, anything else raises \<open>TypeError\<close>.
\<close>

fun py_add :: "real \<Rightarrow> pyval \<Rightarrow> error + real" where
  "py_add x (PInt i) = Inr (x + real_of_int i)"
| "py_add x (PFloat r) = Inr (x + r)"
| "py_add x (PBool b) = Inr (x + (if b then 1 else 0))"
| "py_add x (PStr s) = Inl TypeError"
| "py_add x PNone = Inl TypeError"
| "py_add x (PList xs) = Inl TypeError"
| "py_add x (PTuple xs) = Inl TypeError"
| "py_add x (PSet xs) = Inl TypeError"
| "py_add x (PBytes s) = Inl TypeError"

text \<open>
  \<open>Neurogenesis._find_position_for_new_neuron\<close>. \<open>sorted(..., reverse=True)\<close> is
  stable, so the anchor is the first neuron among those of greatest value.
\<close>

definition find_position_for_new_neuron ::
  "network \<Rightarrow> string \<Rightarrow> world \<Rightarrow> error + (xy_position \<times> world)" where
  "find_position_for_new_neuron net ty wd =
     (let active_neurons =
            take 3 (sort_key (\<lambda>x. - snd x)
                      (map (\<lambda>nm. (nm, get_neuron_value net nm)) (dict_keys (neurons net))))
      in case active_neurons of
           [] \<Rightarrow>
             (case random_uniform 100 900 wd of (x, wd1) \<Rightarrow>
              case random_uniform 100 500 wd1 of (y, wd2) \<Rightarrow> Inr (PosTuple x y, wd2))
         | (anchor_name, _) # _ \<Rightarrow>
             (case map_of (neurons net) anchor_name of
                None \<Rightarrow> Inl (KeyError anchor_name)
              | Some anchor \<Rightarrow>
                  (case coordinates (get_position anchor) of (base_x, base_y) \<Rightarrow>
                   case random_uniform 0 (2 * pi) wd of (angle0, wd1) \<Rightarrow>
                   case random_uniform 50 100 wd1 of (distance, wd2) \<Rightarrow>
                     (let angle =
                            (if ty = ''novelty'' then angle0 + pi / 6
                             else if ty = ''stress'' then angle0 + pi / 2
                             else if ty = ''reward'' then angle0 + pi
                             else angle0)
                      in Inr (PosTuple (base_x + cos angle * distance) (base_y + sin angle * distance),
                              wd2)))))"

text \<open>\<open>Neurogenesis._create_connections_for_new_neuron\<close>, the loop over the neurons.\<close>

fun create_connections_loop ::
  "string list \<Rightarrow> string \<Rightarrow> string list \<Rightarrow> real \<Rightarrow> network \<Rightarrow> world \<Rightarrow>
   (error option) \<times> network \<times> world" where
  "create_connections_loop [] new_name related conn_strength net wd = (None, net, wd)"
| "create_connections_loop (existing_name # rest) new_name related conn_strength net wd =
     (if existing_name \<noteq> new_name \<and> existing_name \<notin> set (excluded_neurons net)
      then case (if existing_name \<in> set related then (conn_strength * 2, wd)
                 else random_uniform (- conn_strength) conn_strength wd) of
             (w, wd1) \<Rightarrow>
               (case connect net new_name existing_name w True wd1 of
                  Inl e \<Rightarrow> (Some e, net, wd1)
                | Inr (_, net', wd2) \<Rightarrow>
                    create_connections_loop rest new_name related conn_strength net' wd2)
      else create_connections_loop rest new_name related conn_strength net wd)"

definition create_connections_for_new_neuron ::
  "network \<Rightarrow> string \<Rightarrow> string \<Rightarrow> world \<Rightarrow> (error option) \<times> network \<times> world" where
  "create_connections_for_new_neuron net new_name ty wd =
     (let conn_strength = dict_get (neurogenesis (config net)) ''new_neuron_connection_strength'' (3 / 10);
          related = dict_get [(''novelty'', [''curiosity'']), (''stress'', [''anxiety'']),
                              (''reward'', [''satisfaction'', ''happiness''])] ty []
      in create_connections_loop (dict_keys (neurons net)) new_name related conn_strength net wd)"

text \<open>
  \<open>Neurogenesis._create_neuron\<close>: the name is the base name, an underscore and the
  number of neurons this helper has created so far. \<open>add_neuron\<close> raises when the
  network has a neuron of that name, and nothing in \<open>_create_neuron\<close> or in
  \<open>check_neurogenesis\<close> catches it.
\<close>

definition create_neuron ::
  "neurogenesis_data \<Rightarrow> network \<Rightarrow> string \<Rightarrow> world \<Rightarrow>
   (error + string) \<times> neurogenesis_data \<times> network \<times> world" where
  "create_neuron g net ty wd =
     (let base_name = dict_get [(''novelty'', ''novel''), (''stress'', ''stress''),
                                (''reward'', ''reward'')] ty ''new'';
          new_name = base_name @ ''_'' @ string_of_nat (length (new_neurons g))
      in case find_position_for_new_neuron net ty wd of
           Inl e \<Rightarrow> (Inl e, g, net, wd)
         | Inr (pos, wd1) \<Rightarrow>
             (case add_neuron net new_name (PInt 50) (Some pos) ty None of
                Inl e \<Rightarrow> (Inl e, g, net, wd1)
              | Inr (_, net1) \<Rightarrow>
                  (case create_connections_for_new_neuron net1 new_name ty wd1 of
                     (Some e, net2, wd2) \<Rightarrow> (Inl e, g, net2, wd2)
                   | (None, net2, wd2) \<Rightarrow>
                       (Inr new_name, g\<lparr>new_neurons := new_neurons g @ [new_name]\<rparr>, net2, wd2))))"

text \<open>The loop of \<open>check_neurogenesis\<close> over the firing triggers.\<close>

fun create_neurons ::
  "string list \<Rightarrow> bool \<Rightarrow> neurogenesis_data \<Rightarrow> network \<Rightarrow> world \<Rightarrow>
   (error + bool) \<times> neurogenesis_data \<times> network \<times> world" where
  "create_neurons [] created g net wd = (Inr created, g, net, wd)"
| "create_neurons (ty # rest) created g net wd =
     (case create_neuron g net ty wd of
        (Inl e, g1, net1, wd1) \<Rightarrow> (Inl e, g1, net1, wd1)
      | (Inr new_neuron_name, g1, net1, wd1) \<Rightarrow>
          create_neurons rest (if new_neuron_name \<noteq> [] then True else created) g1 net1 wd1)"

text \<open>
  \<open>Neurogenesis.check_neurogenesis\<close>. \<open>st\<close> is the argument \<open>state\<close>. The three
  counters are decayed first, then one after the other incremented; the cooldown test
  follows.
\<close>

definition check_neurogenesis ::
  "neurogenesis_data \<Rightarrow> network \<Rightarrow> (string, pyval) dict \<Rightarrow> world \<Rightarrow>
   (error + bool) \<times> neurogenesis_data \<times> network \<times> world" where
  "check_neurogenesis g net st wd =
     (case time_time wd of (current_time, wd1) \<Rightarrow>
      let decay = dict_get (neurogenesis (config net)) ''decay_rate'' (95 / 100);
          g1 = g\<lparr>novelty_counter := novelty_counter g * decay,
                 stress_counter := stress_counter g * decay,
                 reward_counter := reward_counter g * decay\<rparr>
      in case py_add (novelty_counter g1) (dict_get st ''novelty_exposure'' (PInt 0)) of
           Inl e \<Rightarrow> (Inl e, g1, net, wd1)
         | Inr nc \<Rightarrow>
      let g2 = g1\<lparr>novelty_counter := nc\<rparr>
      in case py_add (stress_counter g2) (dict_get st ''sustained_stress'' (PInt 0)) of
           Inl e \<Rightarrow> (Inl e, g2, net, wd1)
         | Inr sc \<Rightarrow>
      let g3 = g2\<lparr>stress_counter := sc\<rparr>
      in case py_add (reward_counter g3) (dict_get st ''recent_rewards'' (PInt 0)) of
           Inl e \<Rightarrow> (Inl e, g3, net, wd1)
         | Inr rc \<Rightarrow>
      let g4 = g3\<lparr>reward_counter := rc\<rparr>;
          cooldown = dict_get (neurogenesis (config net)) ''cooldown'' 300
      in if current_time - last_neuron_time g4 \<le> cooldown then (Inr False, g4, net, wd1)
         else
           let novelty_threshold = dict_get (neurogenesis (config net)) ''novelty_threshold'' 3;
               stress_threshold = dict_get (neurogenesis (config net)) ''stress_threshold'' (7 / 10);
               reward_threshold = dict_get (neurogenesis (config net)) ''reward_threshold'' (6 / 10);
               fire_novelty = novelty_counter g4 > novelty_threshold;
               g5 = (if fire_novelty then g4\<lparr>novelty_counter := 0\<rparr> else g4);
               fire_stress = stress_counter g5 > stress_threshold;
               g6 = (if fire_stress then g5\<lparr>stress_counter := 0\<rparr> else g5);
               fire_reward = reward_counter g6 > reward_threshold;
               g7 = (if fire_reward then g6\<lparr>reward_counter := 0\<rparr> else g6);
               trigger_types = (if fire_novelty then [''novelty''] else []) @
                               (if fire_stress then [''stress''] else []) @
                               (if fire_reward then [''reward''] else [])
           in case create_neurons trigger_types False g7 net wd1 of
                (Inl e, g8, net8, wd8) \<Rightarrow> (Inl e, g8, net8, wd8)
              | (Inr created, g8, net8, wd8) \<Rightarrow>
                  if created
                  then (Inr True, g8\<lparr>last_neuron_time := current_time\<rparr>,
                        (case learning net8 of
                           None \<Rightarrow> net8
                         | Some h \<Rightarrow>
                             (let boost = dict_get (combined (config net8)) ''neurogenesis_learning_boost'' (15 / 10)
                              in net8\<lparr>learning := Some (snd (modify_learning_rate h net8 boost))\<rparr>)),
                        wd8)
                  else (Inr False, g8, net8, wd8))"

section \<open>Backpropagation\<close>

text \<open>\<open>bp_learning_rate\<close> is the attribute \<open>learning_rate\<close> of \<open>BackpropNetwork\<close>.\<close>

record backprop_network =
  bp_learning_rate :: real
  momentum :: real
  layers :: "string list list"
  prev_weight_changes :: "(string \<times> string, real) dict"

definition BackpropNetwork_init :: backprop_network where
  "BackpropNetwork_init =
     \<lparr>bp_learning_rate = 1 / 10, momentum = 9 / 10, layers = [], prev_weight_changes = []\<rparr>"

definition set_layers :: "backprop_network \<Rightarrow> string list list \<Rightarrow> backprop_network" where
  "set_layers bp ls = bp\<lparr>layers := ls, prev_weight_changes := []\<rparr>"

text \<open>
  \<open>sigmoid\<close>: the guard \<open>x < -700\<close> keeps \<open>math.exp\<close> from overflowing, so the
  \<open>except OverflowError\<close> branch is never taken.
\<close>

definition sigmoid :: "real \<Rightarrow> real" where
  "sigmoid x = (if x < - 700 then 0 else 1 / (1 + exp (- x)))"

text \<open>A state value as an operand of \<open>/\<close>: a number or a boolean, else \<open>TypeError\<close>.\<close>

fun py_num :: "pyval \<Rightarrow> error + real" where
  "py_num (PInt i) = Inr (real_of_int i)"
| "py_num (PFloat r) = Inr r"
| "py_num (PBool b) = Inr (if b then 1 else 0)"
| "py_num (PStr s) = Inl TypeError"
| "py_num PNone = Inl TypeError"
| "py_num (PList xs) = Inl TypeError"
| "py_num (PTuple xs) = Inl TypeError"
| "py_num (PSet xs) = Inl TypeError"
| "py_num (PBytes s) = Inl TypeError"

text \<open>\<open>self.network.state[name] / 100.0\<close>.\<close>

definition state_div_100 :: "network \<Rightarrow> string \<Rightarrow> error + real" where
  "state_div_100 net nm =
     (case map_of (state net) nm of
        None \<Rightarrow> Inl (KeyError nm)
      | Some v \<Rightarrow> (case py_num v of Inl e \<Rightarrow> Inl e | Inr x \<Rightarrow> Inr (x / 100)))"

text \<open>\<open>forward_pass\<close>: the weighted sum of one neuron over the previous layer.\<close>

fun weighted_sum_loop :: "network \<Rightarrow> string \<Rightarrow> string list \<Rightarrow> real \<Rightarrow> error + real" where
  "weighted_sum_loop net nm [] acc = Inr acc"
| "weighted_sum_loop net nm (prev_neuron # rest) acc =
     (case map_of (connections net) (prev_neuron, nm) of
        None \<Rightarrow> weighted_sum_loop net nm rest acc
      | Some conn \<Rightarrow>
          (case state_div_100 net prev_neuron of
             Inl e \<Rightarrow> Inl e
           | Inr v \<Rightarrow> weighted_sum_loop net nm rest (acc + get_weight conn * v)))"

fun forward_layer :: "network \<Rightarrow> string list \<Rightarrow> string list \<Rightarrow> error option \<times> network" where
  "forward_layer net prev_layer [] = (None, net)"
| "forward_layer net prev_layer (nm # rest) =
     (case weighted_sum_loop net nm prev_layer 0 of
        Inl e \<Rightarrow> (Some e, net)
      | Inr weighted_sum \<Rightarrow>
          forward_layer
            (net\<lparr>state := AList.update nm (PFloat (sigmoid weighted_sum * 100)) (state net)\<rparr>)
            prev_layer rest)"

fun forward_layers :: "network \<Rightarrow> string list \<Rightarrow> string list list \<Rightarrow> error option \<times> network" where
  "forward_layers net prev_layer [] = (None, net)"
| "forward_layers net prev_layer (current_layer # rest) =
     (case forward_layer net prev_layer current_layer of
        (Some e, net1) \<Rightarrow> (Some e, net1)
      | (None, net1) \<Rightarrow> forward_layers net1 current_layer rest)"

fun read_outputs :: "network \<Rightarrow> string list \<Rightarrow> error + pyval list" where
  "read_outputs net [] = Inr []"
| "read_outputs net (n # ns) =
     (case map_of (state net) n of
        None \<Rightarrow> Inl (KeyError n)
      | Some v \<Rightarrow> (case read_outputs net ns of Inl e \<Rightarrow> Inl e | Inr vs \<Rightarrow> Inr (v # vs)))"

text \<open>
  \<open>BackpropNetwork.forward_pass\<close>: the inputs are written to the neurons of the first
  layer as far as they reach. The network at the moment of an error is returned with it.
\<close>

definition forward_pass ::
  "backprop_network \<Rightarrow> network \<Rightarrow> pyval list \<Rightarrow> (error + pyval list) \<times> network" where
  "forward_pass bp net inputs =
     (case layers bp of
        [] \<Rightarrow> (Inl (ValueError ''Network layers not defined''), net)
      | input_layer # rest \<Rightarrow>
          (let net1 = net\<lparr>state := fold (\<lambda>(nm, v). AList.update nm v)
                                        (zip input_layer inputs) (state net)\<rparr>
           in case forward_layers net1 input_layer rest of
                (Some e, net2) \<Rightarrow> (Inl e, net2)
              | (None, net2) \<Rightarrow>
                  (case read_outputs net2 (last (layers bp)) of
                     Inl e \<Rightarrow> (Inl e, net2)
                   | Inr outs \<Rightarrow> (Inr outs, net2))))"

text \<open>\<open>backward_pass\<close>: the deltas of the output layer.\<close>

fun output_deltas ::
  "network \<Rightarrow> (string \<times> real) list \<Rightarrow> (string, real) dict \<Rightarrow> error + (string, real) dict" where
  "output_deltas net [] deltas = Inr deltas"
| "output_deltas net ((nm, tgt) # rest) deltas =
     (case state_div_100 net nm of
        Inl e \<Rightarrow> Inl e
      | Inr out \<Rightarrow>
          output_deltas net rest (AList.update nm ((tgt - out) * out * (1 - out)) deltas))"

text \<open>The deltas of the other layers, from the last but one down to the first.\<close>

fun error_sum_loop ::
  "network \<Rightarrow> (string, real) dict \<Rightarrow> string \<Rightarrow> string list \<Rightarrow> real \<Rightarrow> error + real" where
  "error_sum_loop net deltas nm [] acc = Inr acc"
| "error_sum_loop net deltas nm (next_neuron # rest) acc =
     (case map_of (connections net) (nm, next_neuron) of
        None \<Rightarrow> error_sum_loop net deltas nm rest acc
      | Some conn \<Rightarrow>
          (case map_of deltas next_neuron of
             None \<Rightarrow> Inl (KeyError next_neuron)
           | Some dl \<Rightarrow> error_sum_loop net deltas nm rest (acc + get_weight conn * dl)))"

fun layer_deltas ::
  "network \<Rightarrow> string list \<Rightarrow> string list \<Rightarrow> (string, real) dict \<Rightarrow> error + (string, real) dict" where
  "layer_deltas net [] next_layer deltas = Inr deltas"
| "layer_deltas net (nm # rest) next_layer deltas =
     (case error_sum_loop net deltas nm next_layer 0 of
        Inl e \<Rightarrow> Inl e
      | Inr error_sum \<Rightarrow>
          (case state_div_100 net nm of
             Inl e \<Rightarrow> Inl e
           | Inr out \<Rightarrow>
               layer_deltas net rest next_layer
                 (AList.update nm (error_sum * out * (1 - out)) deltas)))"

fun hidden_deltas ::
  "network \<Rightarrow> (string list \<times> string list) list \<Rightarrow> (string, real) dict \<Rightarrow>
   error + (string, real) dict" where
  "hidden_deltas net [] deltas = Inr deltas"
| "hidden_deltas net ((current_layer, next_layer) # rest) deltas =
     (case layer_deltas net current_layer next_layer deltas of
        Inl e \<Rightarrow> Inl e
      | Inr deltas1 \<Rightarrow> hidden_deltas net rest deltas1)"

text \<open>
  The weight updates. \<open>update_weight_step\<close> is the body of the innermost loop for one
  connection that exists: the change, with the momentum term when one is recorded, is
  stored for the next call and added to the weight through \<open>set_weight\<close>.
\<close>

definition update_weight_step ::
  "backprop_network \<Rightarrow> network \<Rightarrow> real \<Rightarrow> real \<Rightarrow> string \<times> string \<Rightarrow> connection \<Rightarrow> world \<Rightarrow>
   real \<times> backprop_network \<times> network \<times> world" where
  "update_weight_step bp net next_delta out conn_key conn wd =
     (let delta_w0 = bp_learning_rate bp * next_delta * out;
          delta_w = (case map_of (prev_weight_changes bp) conn_key of
                       None \<Rightarrow> delta_w0
                     | Some prev \<Rightarrow> delta_w0 + momentum bp * prev);
          bp1 = bp\<lparr>prev_weight_changes := AList.update conn_key delta_w (prev_weight_changes bp)\<rparr>;
          old_weight = get_weight conn
      in case set_weight conn (old_weight + delta_w) wd of
           ((_, conn1), wd1) \<Rightarrow>
             (\<bar>delta_w\<bar>, bp1, net\<lparr>connections := AList.update conn_key conn1 (connections net)\<rparr>, wd1))"

fun update_weights_next ::
  "backprop_network \<Rightarrow> network \<Rightarrow> (string, real) dict \<Rightarrow> string \<Rightarrow> real \<Rightarrow> string list \<Rightarrow>
   real \<Rightarrow> world \<Rightarrow> (error + real) \<times> backprop_network \<times> network \<times> world" where
  "update_weights_next bp net deltas nm out [] total_changes wd = (Inr total_changes, bp, net, wd)"
| "update_weights_next bp net deltas nm out (next_neuron # rest) total_changes wd =
     (case map_of (connections net) (nm, next_neuron) of
        None \<Rightarrow> update_weights_next bp net deltas nm out rest total_changes wd
      | Some conn \<Rightarrow>
          (case map_of deltas next_neuron of
             None \<Rightarrow> (Inl (KeyError next_neuron), bp, net, wd)
           | Some dl \<Rightarrow>
               (case update_weight_step bp net dl out (nm, next_neuron) conn wd of
                  (change, bp1, net1, wd1) \<Rightarrow>
                    update_weights_next bp1 net1 deltas nm out rest (total_changes + change) wd1)))"

fun update_weights_layer ::
  "backprop_network \<Rightarrow> network \<Rightarrow> (string, real) dict \<Rightarrow> string list \<Rightarrow> string list \<Rightarrow>
   real \<Rightarrow> world \<Rightarrow> (error + real) \<times> backprop_network \<times> network \<times> world" where
  "update_weights_layer bp net deltas [] next_layer total_changes wd = (Inr total_changes, bp, net, wd)"
| "update_weights_layer bp net deltas (nm # rest) next_layer total_changes wd =
     (case state_div_100 net nm of
        Inl e \<Rightarrow> (Inl e, bp, net, wd)
      | Inr out \<Rightarrow>
          (case update_weights_next bp net deltas nm out next_layer total_changes wd of
             (Inl e, bp1, net1, wd1) \<Rightarrow> (Inl e, bp1, net1, wd1)
           | (Inr total_changes1, bp1, net1, wd1) \<Rightarrow>
               update_weights_layer bp1 net1 deltas rest next_layer total_changes1 wd1))"

fun update_weights ::
  "backprop_network \<Rightarrow> network \<Rightarrow> (string, real) dict \<Rightarrow> (string list \<times> string list) list \<Rightarrow>
   real \<Rightarrow> world \<Rightarrow> (error + real) \<times> backprop_network \<times> network \<times> world" where
  "update_weights bp net deltas [] total_changes wd = (Inr total_changes, bp, net, wd)"
| "update_weights bp net deltas ((current_layer, next_layer) # rest) total_changes wd =
     (case update_weights_layer bp net deltas current_layer next_layer total_changes wd of
        (Inl e, bp1, net1, wd1) \<Rightarrow> (Inl e, bp1, net1, wd1)
      | (Inr total_changes1, bp1, net1, wd1) \<Rightarrow> update_weights bp1 net1 deltas rest total_changes1 wd1)"

fun mse_loop :: "network \<Rightarrow> (string \<times> real) list \<Rightarrow> real \<Rightarrow> error + real" where
  "mse_loop net [] acc = Inr acc"
| "mse_loop net ((nm, tgt) # rest) acc =
     (case state_div_100 net nm of
        Inl e \<Rightarrow> Inl e
      | Inr out \<Rightarrow> mse_loop net rest (acc + (tgt - out) ^ 2))"

text \<open>
  \<open>BackpropNetwork.backward_pass\<close>. The targets are numbers. Returns the mean squared
  error and the sum of the absolute weight changes; the state at the moment of an error
  is returned with it.
\<close>

definition backward_pass ::
  "backprop_network \<Rightarrow> network \<Rightarrow> real list \<Rightarrow> world \<Rightarrow>
   (error + (real \<times> real)) \<times> backprop_network \<times> network \<times> world" where
  "backward_pass bp net targets wd =
     (if layers bp = [] then (Inl (ValueError ''Network layers not defined''), bp, net, wd)
      else
        let output_layer = last (layers bp)
        in if length targets \<noteq> length output_layer
           then (Inl (ValueError (''Expected '' @ string_of_nat (length output_layer) @
                                  '' targets, got '' @ string_of_nat (length targets))),
                 bp, net, wd)
           else
             let normalized_targets = map (\<lambda>t. t / 100) targets;
                 layer_pairs = zip (layers bp) (tl (layers bp))
             in case output_deltas net (zip output_layer normalized_targets) [] of
                  Inl e \<Rightarrow> (Inl e, bp, net, wd)
                | Inr deltas1 \<Rightarrow>
                    (case hidden_deltas net (rev layer_pairs) deltas1 of
                       Inl e \<Rightarrow> (Inl e, bp, net, wd)
                     | Inr deltas2 \<Rightarrow>
                         (case update_weights bp net deltas2 layer_pairs 0 wd of
                            (Inl e, bp1, net1, wd1) \<Rightarrow> (Inl e, bp1, net1, wd1)
                          | (Inr total_changes, bp1, net1, wd1) \<Rightarrow>
                              (case mse_loop net1 (zip output_layer normalized_targets) 0 of
                                 Inl e \<Rightarrow> (Inl e, bp1, net1, wd1)
                               | Inr mse \<Rightarrow>
                                   if length output_layer = 0
                                   then (Inl ZeroDivisionError, bp1, net1, wd1)
                                   else (Inr (mse / real (length output_layer), total_changes),
                                         bp1, net1, wd1)))))"

text \<open>\<open>train\<close>: the loop over the examples of one epoch.\<close>

fun train_examples ::
  "backprop_network \<Rightarrow> network \<Rightarrow> (pyval list \<times> real list) list \<Rightarrow> real \<Rightarrow> world \<Rightarrow>
   (error + real) \<times> backprop_network \<times> network \<times> world" where
  "train_examples bp net [] epoch_error wd = (Inr epoch_error, bp, net, wd)"
| "train_examples bp net ((inputs, targets) # rest) epoch_error wd =
     (case forward_pass bp net inputs of
        (Inl e, net1) \<Rightarrow> (Inl e, bp, net1, wd)
      | (Inr _, net1) \<Rightarrow>
          (case backward_pass bp net1 targets wd of
             (Inl e, bp2, net2, wd2) \<Rightarrow> (Inl e, bp2, net2, wd2)
           | (Inr (err, _), bp2, net2, wd2) \<Rightarrow>
               train_examples bp2 net2 rest (epoch_error + err) wd2))"

text \<open>
  The loop over the epochs: \<open>k\<close> epochs remain, \<open>epoch\<close> is the index of the next
  one. The training data are shuffled in place at the start of each epoch. The average
  divides by \<open>len(training_data)\<close>, which raises \<open>ZeroDivisionError\<close> for an empty
  list. The callback, when given, stops the training by returning a false value.
\<close>

fun train_epochs ::
  "nat \<Rightarrow> nat \<Rightarrow> backprop_network \<Rightarrow> network \<Rightarrow> (pyval list \<times> real list) list \<Rightarrow> real \<Rightarrow>
   (nat \<Rightarrow> real \<Rightarrow> bool) option \<Rightarrow> real list \<Rightarrow> world \<Rightarrow>
   (error + real list) \<times> backprop_network \<times> network \<times> (pyval list \<times> real list) list \<times> world" where
  "train_epochs 0 epoch bp net training_data target_error callback errors wd =
     (Inr errors, bp, net, training_data, wd)"
| "train_epochs (Suc k) epoch bp net training_data target_error callback errors wd =
     (case random_shuffle training_data wd of (data1, wd1) \<Rightarrow>
        (case train_examples bp net data1 0 wd1 of
           (Inl e, bp1, net1, wd2) \<Rightarrow> (Inl e, bp1, net1, data1, wd2)
         | (Inr epoch_error, bp1, net1, wd2) \<Rightarrow>
             if length data1 = 0 then (Inl ZeroDivisionError, bp1, net1, data1, wd2)
             else
               let avg_error = epoch_error / real (length data1);
                   errors1 = errors @ [avg_error]
               in if (case callback of None \<Rightarrow> False | Some f \<Rightarrow> \<not> f epoch avg_error)
                  then (Inr errors1, bp1, net1, data1, wd2)
                  else if avg_error \<le> target_error then (Inr errors1, bp1, net1, data1, wd2)
                  else train_epochs k (Suc epoch) bp1 net1 data1 target_error callback errors1 wd2))"

text \<open>
  \<open>BackpropNetwork.train\<close>: \<open>epochs\<close> is the number of iterations of
  \<open>range(epochs)\<close>, which is 0 for a negative argument.
\<close>

definition train ::
  "backprop_network \<Rightarrow> network \<Rightarrow> (pyval list \<times> real list) list \<Rightarrow> nat \<Rightarrow> real \<Rightarrow>
   (nat \<Rightarrow> real \<Rightarrow> bool) option \<Rightarrow> world \<Rightarrow>
   (error + real list) \<times> backprop_network \<times> network \<times> (pyval list \<times> real list) list \<times> world" where
  "train bp net training_data epochs target_error callback wd =
     train_epochs epochs 0 bp net training_data target_error callback [] wd"

text \<open>
  \<open>xs.index(max(xs))\<close> for numbers: the position of the first greatest element;
  \<open>max\<close> of an empty list raises \<open>ValueError\<close>.
\<close>

fun index_of :: "'a \<Rightarrow> 'a list \<Rightarrow> nat" where
  "index_of x [] = 0"
| "index_of x (y # ys) = (if x = y then 0 else Suc (index_of x ys))"

definition index_of_max :: "real list \<Rightarrow> error + nat" where
  "index_of_max xs =
     (case xs of
        [] \<Rightarrow> Inl (ValueError ''max() arg is an empty sequence'')
      | x # rest \<Rightarrow> Inr (index_of (fold max rest x) xs))"

fun py_nums :: "pyval list \<Rightarrow> error + real list" where
  "py_nums [] = Inr []"
| "py_nums (v # vs) =
     (case py_num v of
        Inl e \<Rightarrow> Inl e
      | Inr x \<Rightarrow> (case py_nums vs of Inl e \<Rightarrow> Inl e | Inr xs \<Rightarrow> Inr (x # xs)))"

text \<open>
  \<open>BackpropNetwork.test\<close>: 0 for an empty data set, else the share of the examples
  whose greatest output stands where the greatest target stands. The outputs are read
  as numbers.
\<close>

fun test_loop ::
  "backprop_network \<Rightarrow> network \<Rightarrow> (pyval list \<times> real list) list \<Rightarrow> nat \<Rightarrow>
   (error + nat) \<times> network" where
  "test_loop bp net [] correct = (Inr correct, net)"
| "test_loop bp net ((inputs, targets) # rest) correct =
     (case forward_pass bp net inputs of
        (Inl e, net1) \<Rightarrow> (Inl e, net1)
      | (Inr outputs, net1) \<Rightarrow>
          (case py_nums outputs of
             Inl e \<Rightarrow> (Inl e, net1)
           | Inr outs \<Rightarrow>
               (case index_of_max outs of
                  Inl e \<Rightarrow> (Inl e, net1)
                | Inr max_idx \<Rightarrow>
                    (case index_of_max targets of
                       Inl e \<Rightarrow> (Inl e, net1)
                     | Inr target_idx \<Rightarrow>
                         test_loop bp net1 rest
                           (if max_idx = target_idx then correct + 1 else correct)))))"

definition test ::
  "backprop_network \<Rightarrow> network \<Rightarrow> (pyval list \<times> real list) list \<Rightarrow> (error + real) \<times> network" where
  "test bp net test_data =
     (if test_data = [] then (Inr 0, net)
      else case test_loop bp net test_data 0 of
             (Inl e, net1) \<Rightarrow> (Inl e, net1)
           | (Inr correct, net1) \<Rightarrow> (Inr (real correct / real (length test_data)), net1))"

section \<open>Saving and loading\<close>

text \<open>
  What \<open>json.load\<close> gives back for a value that \<open>json.dump\<close> wrote: a number, a
  boolean, a string and \<open>None\<close> come back as they were, a list and a tuple come
  back as the list of what their items come back as. \<open>json.dump\<close> raises
  \<open>TypeError\<close> on a set and on a bytes object: the result is \<open>None\<close>.
\<close>

fun json_value :: "pyval \<Rightarrow> pyval option" where
  "json_value (PInt i) = Some (PInt i)"
| "json_value (PFloat r) = Some (PFloat r)"
| "json_value (PBool b) = Some (PBool b)"
| "json_value (PStr s) = Some (PStr s)"
| "json_value PNone = Some PNone"
| "json_value (PList xs) = map_option PList (those (map json_value xs))"
| "json_value (PTuple xs) = map_option PList (those (map json_value xs))"
| "json_value (PSet xs) = None"
| "json_value (PBytes s) = None"

text \<open>The same for a dict with string keys, value by value.\<close>

definition json_dict :: "(string, pyval) dict \<Rightarrow> (string, pyval) dict option" where
  "json_dict d = those (map (\<lambda>kv. map_option (Pair (fst kv)) (json_value (snd kv))) d)"

text \<open>
  The JSON document that \<open>save\<close> writes and \<open>load\<close> reads. A key that \<open>load\<close>
  reads with \<open>get\<close> may be absent, so every field is optional; a position is the
  two-element array of its coordinates, which \<open>json.load\<close> gives as a list.
\<close>

record neuron_json =
  j_position :: "(real \<times> real) option"
  j_type :: "string option"
  j_attributes :: "(string, pyval) dict option"

record connection_json =
  j_weight :: "real option"
  j_creation_time :: "real option"

record config_json =
  j_hebbian :: "(string, real) dict option"
  j_neurogenesis :: "(string, real) dict option"

record metadata_json =
  j_meta_creation_time :: "real option"
  j_last_update :: "real option"
  j_update_count :: "nat option"

record snapshot =
  j_neurons :: "(string, neuron_json) dict option"
  j_connections :: "(string, connection_json) dict option"
  j_state :: "(string, pyval) dict option"
  j_config :: "config_json option"
  j_metadata :: "metadata_json option"

text \<open>
  \<open>Network.save\<close>: the document. The key of a connection is the source name, an
  underscore and the target name (\<open>connection_key\<close>); a later connection with the same
  key replaces an earlier one, as in a dict comprehension.
\<close>

definition connection_key :: "string \<times> string \<Rightarrow> string" where
  "connection_key k = fst k @ ''_'' @ snd k"

definition connection_entry :: "connection \<Rightarrow> connection_json" where
  "connection_entry conn =
     \<lparr>j_weight = Some (get_weight conn), j_creation_time = Some (creation_time conn)\<rparr>"

definition neuron_entry :: "neuron \<Rightarrow> neuron_json option" where
  "neuron_entry n =
     map_option (\<lambda>a. \<lparr>j_position = Some (coordinates (get_position n)),
                       j_type = Some (neuron_type n),
                       j_attributes = Some a\<rparr>)
                (json_dict (attributes n))"

text \<open>
  The file at the path given to \<open>save\<close> and \<open>load\<close>: it does not exist, or it
  holds text that \<open>json.load\<close> rejects, or it holds a document.
\<close>

datatype file_content = Missing | Rejected | Document snapshot

text \<open>
  \<open>Network.save\<close> returns a boolean; the model returns it with the content of the
  file afterwards. \<open>writable\<close> tells whether \<open>os.makedirs\<close> and \<open>open\<close> succeed: if
  not, the exception is caught, \<open>save\<close> returns \<open>False\<close> and the file is as it was.
  \<open>open\<close> empties the file and \<open>json.dump\<close> writes the document piece by piece: when
  it raises on a value of the state or of an attribute, the file is left with the
  beginning of a document, which \<open>json.load\<close> rejects, and \<open>save\<close> returns
  \<open>False\<close>. Otherwise the file holds the document, as \<open>json.load\<close> reads it back,
  and \<open>save\<close> returns \<open>True\<close>.
\<close>

definition save :: "network \<Rightarrow> bool \<Rightarrow> file_content \<Rightarrow> bool \<times> file_content" where
  "save net writable old =
     (if \<not> writable then (False, old)
      else case those (map (\<lambda>(nm, n). map_option (Pair nm) (neuron_entry n)) (neurons net)) of
             None \<Rightarrow> (False, Rejected)
           | Some ns \<Rightarrow>
               (case json_dict (state net) of
                  None \<Rightarrow> (False, Rejected)
                | Some st \<Rightarrow>
                    (True, Document
                       \<lparr>j_neurons = Some ns,
                        j_connections =
                          Some (fold (\<lambda>(k, conn). AList.update (connection_key k) (connection_entry conn))
                                     (connections net) []),
                        j_state = Some st,
                        j_config = Some \<lparr>j_hebbian = Some (hebbian (config net)),
                                         j_neurogenesis = Some (neurogenesis (config net))\<rparr>,
                        j_metadata = Some \<lparr>j_meta_creation_time = Some (network_creation_time net),
                                           j_last_update = Some (last_update_time net),
                                           j_update_count = Some (update_count net)\<rparr>\<rparr>)))"

text \<open>\<open>key.split(sep)\<close> for a separator of one character.\<close>

fun py_split :: "char \<Rightarrow> string \<Rightarrow> string list" where
  "py_split sep [] = [[]]"
| "py_split sep (c # cs) =
     (if c = sep then [] # py_split sep cs
      else (case py_split sep cs of
              [] \<Rightarrow> [[c]]
            | w # ws \<Rightarrow> (c # w) # ws))"

text \<open>The loop of \<open>load\<close> over the neurons of the document.\<close>

fun load_neurons :: "network \<Rightarrow> (string \<times> neuron_json) list \<Rightarrow> error + network" where
  "load_neurons net [] = Inr net"
| "load_neurons net ((nm, neuron_data) # rest) =
     (case add_neuron net nm (PInt 0)
             (map_option (\<lambda>(x, y). PosList x y) (j_position neuron_data))
             (case j_type neuron_data of None \<Rightarrow> ''default'' | Some ty \<Rightarrow> ty)
             (Some (case j_attributes neuron_data of None \<Rightarrow> [] | Some a \<Rightarrow> a)) of
        Inl e \<Rightarrow> Inl e
      | Inr (_, net1) \<Rightarrow> load_neurons net1 rest)"

text \<open>
  The loop over the connections: \<open>src, tgt = key.split("_")\<close> raises \<open>ValueError\<close>
  unless the key splits into exactly two parts.
\<close>

fun load_connections ::
  "network \<Rightarrow> (string \<times> connection_json) list \<Rightarrow> world \<Rightarrow> error + (network \<times> world)" where
  "load_connections net [] wd = Inr (net, wd)"
| "load_connections net ((key, conn_data) # rest) wd =
     (case py_split (CHR ''_'') key of
        [src, tgt] \<Rightarrow>
          (case connect net src tgt (case j_weight conn_data of None \<Rightarrow> 0 | Some w \<Rightarrow> w)
                  False wd of
             Inl e \<Rightarrow> Inl e
           | Inr (_, net1, wd1) \<Rightarrow>
               (case map_of (connections net1) (src, tgt) of
                  None \<Rightarrow> load_connections net1 rest wd1
                | Some c \<Rightarrow>
                    (case time_time wd1 of (now, wd2) \<Rightarrow>
                       load_connections
                         (net1\<lparr>connections :=
                            AList.update (src, tgt)
                              (c\<lparr>creation_time :=
                                   (case j_creation_time conn_data of None \<Rightarrow> now | Some t \<Rightarrow> t)\<rparr>)
                              (connections net1)\<rparr>)
                         rest wd2)))
      | _ \<Rightarrow> Inl (ValueError ''unpack''))"

text \<open>
  \<open>Network.load\<close>, from the document on: \<open>None\<close> when anything raises. The
  defaults \<open>time.time()\<close> of the metadata are evaluated whether they are needed or
  not.
\<close>

definition load_data :: "snapshot \<Rightarrow> world \<Rightarrow> (network \<times> world) option" where
  "load_data data wd =
     (let cfg_data = (case j_config data of None \<Rightarrow> \<lparr>j_hebbian = None, j_neurogenesis = None\<rparr>
                      | Some c \<Rightarrow> c);
          cfg = Config_init\<lparr>hebbian := (case j_hebbian cfg_data of
                                            None \<Rightarrow> hebbian Config_init | Some h \<Rightarrow> h),
                            neurogenesis := (case j_neurogenesis cfg_data of
                                            None \<Rightarrow> neurogenesis Config_init | Some g \<Rightarrow> g)\<rparr>;
          meta = (case j_metadata data of
                    None \<Rightarrow> \<lparr>j_meta_creation_time = None, j_last_update = None,
                              j_update_count = None\<rparr>
                  | Some m \<Rightarrow> m)
      in case Network_init (Some cfg) wd of (net0, wd0) \<Rightarrow>
         case time_time wd0 of (now1, wd1) \<Rightarrow>
         case time_time wd1 of (now2, wd2) \<Rightarrow>
           (let net1 = net0\<lparr>network_creation_time :=
                               (case j_meta_creation_time meta of None \<Rightarrow> now1 | Some t \<Rightarrow> t),
                            last_update_time :=
                               (case j_last_update meta of None \<Rightarrow> now2 | Some t \<Rightarrow> t),
                            update_count :=
                               (case j_update_count meta of None \<Rightarrow> 0 | Some n \<Rightarrow> n)\<rparr>
            in case load_neurons net1 (case j_neurons data of None \<Rightarrow> [] | Some ns \<Rightarrow> ns) of
                 Inl e \<Rightarrow> None
               | Inr net2 \<Rightarrow>
                   (case load_connections net2
                           (case j_connections data of None \<Rightarrow> [] | Some cs \<Rightarrow> cs) wd2 of
                      Inl e \<Rightarrow> None
                    | Inr (net3, wd3) \<Rightarrow>
                        Some (net3\<lparr>state := (case j_state data of None \<Rightarrow> [] | Some s \<Rightarrow> s)\<rparr>,
                              wd3))))"

text \<open>
  \<open>Network.load\<close>: \<open>open\<close> raises on a file that does not exist and \<open>json.load\<close>
  on text that is not a document; both are caught and \<open>load\<close> returns \<open>None\<close>.
\<close>

fun load :: "file_content \<Rightarrow> world \<Rightarrow> (network \<times> world) option" where
  "load Missing wd = None"
| "load Rejected wd = None"
| "load (Document data) wd = load_data data wd"

section \<open>Conditions on stored weights\<close>

text \<open>
  What one write of a weight makes of a connection \<open>c\<close>: in the result \<open>c'\<close> the
  weight lies in \<open>[-1, 1]\<close>, the last update carries the time \<open>t_update\<close>, and the
  history is the old history, cut to its last 99 entries, with the entry of the new
  weight and the time \<open>t_history\<close> appended.
\<close>

definition written_from :: "connection \<Rightarrow> connection \<Rightarrow> real \<Rightarrow> real \<Rightarrow> bool" where
  "written_from c c' t_update t_history \<longleftrightarrow>
     - 1 \<le> weight c' \<and> weight c' \<le> 1 \<and> last_update c' = t_update \<and>
     weight_history c' =
       drop (length (weight_history c) - 99) (weight_history c) @ [(t_history, weight c')]"

text \<open>Every connection of the network has its weight in \<open>[-1, 1]\<close>.\<close>

definition weights_in_range :: "network \<Rightarrow> bool" where
  "weights_in_range net = list_all (\<lambda>kc. - 1 \<le> weight (snd kc) \<and> weight (snd kc) \<le> 1) (connections net)"

text \<open>
  The value \<open>propagate_activation\<close> gives a target that has incoming connections: 70% of
  its current value and 30% of the mean weighted input, both read from \<open>net\<close>.
\<close>

definition blended :: "network \<Rightarrow> string \<Rightarrow> pyval" where
  "blended net t =
     clamp_0_100 (get_neuron_value net t * (7 / 10) +
                  fst (incoming_total net t) / real (snd (incoming_total net t)) * (3 / 10))"

section \<open>Example inputs\<close>

text \<open>An environment whose clock reads 0, 1, 2, ... seconds.\<close>

definition sample_world :: world where
  "sample_world = \<lparr>clock = (\<lambda>n. real n), random_draws = (\<lambda>n. 0), integer_draws = (\<lambda>n. 0)\<rparr>"

text \<open>
  Two neurons \<open>A\<close> (state 80) and \<open>B\<close> (state 90) and one connection from \<open>A\<close> to
  \<open>B\<close> of weight 0.5, built with \<open>add_neuron\<close> and \<open>connect\<close>.
\<close>

definition scenario_network :: network where
  "scenario_network =
     (case Network_init None sample_world of (net0, wd0) \<Rightarrow>
        case add_neuron net0 ''A'' (PInt 80) None ''default'' None of
          Inl _ \<Rightarrow> net0
        | Inr (_, net1) \<Rightarrow>
            (case add_neuron net1 ''B'' (PInt 90) None ''default'' None of
               Inl _ \<Rightarrow> net1
             | Inr (_, net2) \<Rightarrow>
                 (case connect net2 ''A'' ''B'' (1 / 2) False wd0 of
                    Inl _ \<Rightarrow> net2
                  | Inr (_, net3, _) \<Rightarrow> net3)))"

text \<open>
  A helper constructed at time 0 for the two-neuron network, then two calls of
  \<open>perform_hebbian_learning\<close>, at time 4 and at time 6.
\<close>

definition debounce_world :: world where
  "debounce_world =
     \<lparr>clock = (\<lambda>n. if n = 0 then 0 else if n = 1 then 4 else 6),
      random_draws = (\<lambda>n. 0), integer_draws = (\<lambda>n. 0)\<rparr>"

definition debounce_helper :: "hebbian_learning \<times> world" where
  "debounce_helper = HebbianLearning_init scenario_network debounce_world"

definition debounce_first_call ::
  "(error + (string \<times> string) list) \<times> hebbian_learning \<times> network \<times> world" where
  "debounce_first_call =
     perform_hebbian_learning (fst debounce_helper) scenario_network (snd debounce_helper)"

definition debounce_second_call ::
  "(error + (string \<times> string) list) \<times> hebbian_learning \<times> network \<times> world" where
  "debounce_second_call =
     (case debounce_first_call of (r1, h1, net1, wd1) \<Rightarrow> perform_hebbian_learning h1 net1 wd1)"

text \<open>
  A network that already has a neuron named \<open>novel_0\<close>, a fresh neurogenesis helper
  for it constructed at time 0, and a call of \<open>check_neurogenesis\<close> at time 1000 with
  a novelty signal of 4.0.
\<close>

definition slow_world :: world where
  "slow_world = \<lparr>clock = (\<lambda>n. 1000 * real n), random_draws = (\<lambda>n. 0), integer_draws = (\<lambda>n. 0)\<rparr>"

definition collision_network :: network where
  "collision_network =
     (case Network_init None slow_world of (net0, _) \<Rightarrow>
        case add_neuron net0 ''novel_0'' (PInt 0) None ''default'' None of
          Inl _ \<Rightarrow> net0
        | Inr (_, net1) \<Rightarrow> net1)"

definition collision_call ::
  "(error + bool) \<times> neurogenesis_data \<times> network \<times> world" where
  "collision_call =
     (case Neurogenesis_init collision_network slow_world of (g, wd) \<Rightarrow>
        check_neurogenesis g collision_network [(''novelty_exposure'', PFloat 4)] wd)"

text \<open>
  A network with the neurons \<open>A\<close> and \<open>novel_0\<close> (the name neurogenesis gives its
  first novelty neuron) and a connection from \<open>novel_0\<close> to \<open>A\<close>.
\<close>

definition underscore_network :: network where
  "underscore_network =
     (case Network_init None sample_world of (net0, wd0) \<Rightarrow>
        case add_neuron net0 ''A'' (PInt 80) None ''default'' None of
          Inl _ \<Rightarrow> net0
        | Inr (_, net1) \<Rightarrow>
            (case add_neuron net1 ''novel_0'' (PInt 50) None ''novelty'' None of
               Inl _ \<Rightarrow> net1
             | Inr (_, net2) \<Rightarrow>
                 (case connect net2 ''novel_0'' ''A'' (3 / 10) False wd0 of
                    Inl _ \<Rightarrow> net2
                  | Inr (_, net3, _) \<Rightarrow> net3)))"

text \<open>
  A network with the one neuron \<open>A\<close> whose state is the tuple \<open>(1, 2)\<close>, and
  one whose state is the set \<open>{1}\<close>.
\<close>

definition tuple_state_network :: network where
  "tuple_state_network =
     (case Network_init None sample_world of (net0, wd0) \<Rightarrow>
        case add_neuron net0 ''A'' (PTuple [PInt 1, PInt 2]) None ''default'' None of
          Inl _ \<Rightarrow> net0
        | Inr (_, net1) \<Rightarrow> net1)"

definition set_state_network :: network where
  "set_state_network =
     (case Network_init None sample_world of (net0, wd0) \<Rightarrow>
        case add_neuron net0 ''A'' (PSet [PInt 1]) None ''default'' None of
          Inl _ \<Rightarrow> net0
        | Inr (_, net1) \<Rightarrow> net1)"

section \<open>Facts about dictionaries\<close>

lemma dict_in_iff: "dict_in k d \<longleftrightarrow> k \<in> set (dict_keys d)"
  by (simp add: dict_in_def dict_keys_def map_of_eq_None_iff)

lemma two_keys:
  assumes "distinct xs" and "set xs = {a, b}" and "a \<noteq> b"
  shows "xs = [a, b] \<or> xs = [b, a]"
proof -
  have "length xs = 2"
    using distinct_card [OF assms(1)] assms(2,3) by simp
  then obtain x y where xy: "xs = [x, y]"
    by (auto simp add: numeral_2_eq_2 length_Suc_conv)
  with assms(2) have "{x, y} = {a, b}" by simp
  then show ?thesis using xy by (auto simp add: doubleton_eq_iff)
qed

section \<open>Reading a neuron's value\<close>

text \<open>
  What \<open>get_neuron_value\<close> returns, by the type of the stored value. A boolean is an
  instance of \<open>int\<close>, so the first test of the source takes it: \<open>True\<close> reads as 1
  and \<open>False\<close> as 0, and the branch for booleans is never reached.
\<close>

lemma get_neuron_value_cases:
  "map_of (state net) k = Some (PInt i) \<Longrightarrow> get_neuron_value net k = real_of_int i"
  "map_of (state net) k = Some (PFloat r) \<Longrightarrow> get_neuron_value net k = r"
  "map_of (state net) k = Some (PBool b) \<Longrightarrow> get_neuron_value net k = (if b then 1 else 0)"
  "map_of (state net) k = Some (PStr s) \<Longrightarrow> get_neuron_value net k = 75"
  "map_of (state net) k = Some PNone \<Longrightarrow> get_neuron_value net k = 0"
  "map_of (state net) k = None \<Longrightarrow> get_neuron_value net k = 0"
  by (simp_all add: get_neuron_value_def dict_get_def)

text \<open>
  Claim C1. The claim says that a boolean state value reads as 100.0 when true. On the
  source a state \<open>{"A": True}\<close> reads as 1.0: the claim fails there.
\<close>

theorem get_neuron_value_true_is_one:
  "get_neuron_value (net\<lparr>state := [(''A'', PBool True)]\<rparr>) ''A'' = 1 \<and>
   get_neuron_value (net\<lparr>state := [(''A'', PBool True)]\<rparr>) ''A'' \<noteq> 100"
  by (simp add: get_neuron_value_def dict_get_def)

section \<open>Propagation of activation\<close>

lemma scenario_network_fields:
  "dict_keys (neurons scenario_network) = [''A'', ''B'']"
  "map fst (connections scenario_network) = [(''A'', ''B'')]"
  "map (weight \<circ> snd) (connections scenario_network) = [1 / 2]"
  "state scenario_network = [(''A'', PInt 80), (''B'', PInt 90)]"
  by (simp_all add: scenario_network_def Network_init_def sample_world_def time_time_def
      add_neuron_def dict_in_def Neuron_init_def connect_def Connection_init_def set_weight_def
      dict_keys_def Let_def)

text \<open>
  Claim C3. A network whose neurons are exactly \<open>A\<close> and \<open>B\<close>, with the one connection
  from \<open>A\<close> to \<open>B\<close> of weight 0.5 and the state \<open>A = 80\<close>, \<open>B = 90\<close> (stored as
  integers or as floats): one call of \<open>propagate_activation()\<close> stores 75.0 for \<open>B\<close>
  and leaves \<open>A\<close> as it was.
\<close>

theorem propagate_activation_scenario:
  assumes "distinct (dict_keys (neurons net))"
    and "set (dict_keys (neurons net)) = {''A'', ''B''}"
    and "connections net = [((''A'', ''B''), c)]" and "weight c = 1 / 2"
    and "map_of (state net) ''A'' = Some a" and "a = PInt 80 \<or> a = PFloat 80"
    and "map_of (state net) ''B'' = Some b" and "b = PInt 90 \<or> b = PFloat 90"
  shows "map_of (state (propagate_activation net 1)) ''B'' = Some (PFloat 75) \<and>
         map_of (state (propagate_activation net 1)) ''A'' = Some a"
proof -
  have "dict_keys (neurons net) = [''A'', ''B''] \<or> dict_keys (neurons net) = [''B'', ''A'']"
    using assms(1,2) by (intro two_keys) simp_all
  then show ?thesis
    using assms(3-8)
    by (auto simp add: propagate_step_def propagate_target_def incoming_total_def
        incoming_step_def get_neuron_value_def dict_get_def get_weight_def clamp_0_100_def
        update_conv')
qed

theorem propagate_activation_scenario_witness:
  "distinct (dict_keys (neurons scenario_network)) \<and>
   set (dict_keys (neurons scenario_network)) = {''A'', ''B''} \<and>
   map fst (connections scenario_network) = [(''A'', ''B'')] \<and>
   map (weight \<circ> snd) (connections scenario_network) = [1 / 2] \<and>
   map_of (state scenario_network) ''A'' = Some (PInt 80) \<and>
   map_of (state scenario_network) ''B'' = Some (PInt 90) \<and>
   map_of (state (propagate_activation scenario_network 1)) ''B'' = Some (PFloat 75) \<and>
   map_of (state (propagate_activation scenario_network 1)) ''A'' = Some (PInt 80)"
proof -
  obtain c where c: "connections scenario_network = [((''A'', ''B''), c)]" "weight c = 1 / 2"
    using scenario_network_fields(2,3) by (cases "connections scenario_network") auto
  have k: "distinct (dict_keys (neurons scenario_network))"
    "set (dict_keys (neurons scenario_network)) = {''A'', ''B''}"
    by (simp_all add: scenario_network_fields)
  have s: "map_of (state scenario_network) ''A'' = Some (PInt 80)"
    "map_of (state scenario_network) ''B'' = Some (PInt 90)"
    by (simp_all add: scenario_network_fields)
  show ?thesis
    using propagate_activation_scenario [OF k c s(1) _ s(2)] k s scenario_network_fields(2,3)
    by simp
qed

text \<open>The inner loop: the sum and the number of the weighted inputs of a target.\<close>

lemma incoming_step_eq:
  "incoming_step net t k acc =
     (if dict_in (k, t) (connections net)
      then (fst acc + get_neuron_value net k * get_weight (the (map_of (connections net) (k, t))),
            snd acc + 1)
      else acc)"
  by (cases "map_of (connections net) (k, t)") (simp_all add: incoming_step_def dict_in_def)

lemma fold_incoming_step:
  "fold (incoming_step net t) ks acc =
     (fst acc + sum_list (map (\<lambda>s. get_neuron_value net s * get_weight (the (map_of (connections net) (s, t))))
                           (filter (\<lambda>s. dict_in (s, t) (connections net)) ks)),
      snd acc + length (filter (\<lambda>s. dict_in (s, t) (connections net)) ks))"
proof (induction ks arbitrary: acc)
  case Nil
  show ?case by simp
next
  case (Cons k ks)
  have st: "incoming_step net t k acc =
     (if dict_in (k, t) (connections net)
      then (fst acc + get_neuron_value net k * get_weight (the (map_of (connections net) (k, t))),
            snd acc + 1)
      else acc)"
    by (rule incoming_step_eq)
  show ?case by (simp add: Cons.IH st add.assoc)
qed

lemma incoming_total_eq:
  "incoming_total net t =
     (sum_list (map (\<lambda>s. get_neuron_value net s * get_weight (the (map_of (connections net) (s, t))))
                    (filter (\<lambda>s. dict_in (s, t) (connections net)) (dict_keys (neurons net)))),
      length (filter (\<lambda>s. dict_in (s, t) (connections net)) (dict_keys (neurons net))))"
  by (simp add: incoming_total_def fold_incoming_step)

lemma incoming_count_pos:
  "0 < snd (incoming_total net t) \<longleftrightarrow>
     (\<exists>s\<in>set (dict_keys (neurons net)). dict_in (s, t) (connections net))"
  by (auto simp add: incoming_total_eq filter_empty_conv)

text \<open>The outer loop, key by key.\<close>

lemma propagate_target_map_of:
  "map_of (propagate_target net t st) k =
     (if k = t \<and> 0 < snd (incoming_total net t) then Some (blended net t) else map_of st k)"
  by (cases "incoming_total net t") (simp add: propagate_target_def blended_def update_conv')

lemma fold_propagate_target:
  "map_of (fold (propagate_target net) ks st) k =
     (if k \<in> set ks \<and> 0 < snd (incoming_total net k) then Some (blended net k) else map_of st k)"
proof (induction ks arbitrary: st)
  case Nil
  show ?case by simp
next
  case (Cons a ks)
  show ?case by (auto simp add: Cons.IH propagate_target_map_of)
qed

lemma clamp_0_100_bounds: "0 \<le> py_float (clamp_0_100 x) \<and> py_float (clamp_0_100 x) \<le> 100"
  by (simp add: clamp_0_100_def)

lemma get_neuron_value_clamped:
  "map_of (state net) k = Some (clamp_0_100 x) \<Longrightarrow> get_neuron_value net k = py_float (clamp_0_100 x)"
  by (simp add: get_neuron_value_def dict_get_def clamp_0_100_def)

text \<open>The order in which the neurons are visited does not change the inputs of a target.\<close>

lemma incoming_total_perm:
  assumes "mset ns' = mset (neurons net)"
  shows "incoming_total (net\<lparr>neurons := ns'\<rparr>) t = incoming_total net t"
proof -
  have m: "mset (dict_keys ns') = mset (dict_keys (neurons net))"
    unfolding dict_keys_def using arg_cong [OF assms, of "image_mset fst"] by (simp only: mset_map)
  have g: "get_neuron_value (net\<lparr>neurons := ns'\<rparr>) = get_neuron_value net"
    by (rule ext) (simp add: get_neuron_value_def)
  let ?P = "\<lambda>s. dict_in (s, t) (connections net)"
  let ?f = "\<lambda>s. get_neuron_value net s * get_weight (the (map_of (connections net) (s, t)))"
  have "mset (map ?f (filter ?P (dict_keys ns'))) = mset (map ?f (filter ?P (dict_keys (neurons net))))"
    using m by (simp only: mset_map mset_filter)
  then have "sum_mset (mset (map ?f (filter ?P (dict_keys ns')))) =
      sum_mset (mset (map ?f (filter ?P (dict_keys (neurons net)))))"
    by (rule arg_cong)
  then have s: "sum_list (map ?f (filter ?P (dict_keys ns'))) =
      sum_list (map ?f (filter ?P (dict_keys (neurons net))))"
    by (simp only: sum_mset_sum_list)
  have "mset (filter ?P (dict_keys ns')) = mset (filter ?P (dict_keys (neurons net)))"
    using m by (simp only: mset_filter)
  then have "size (mset (filter ?P (dict_keys ns'))) = size (mset (filter ?P (dict_keys (neurons net))))"
    by (rule arg_cong)
  then have l: "length (filter ?P (dict_keys ns')) = length (filter ?P (dict_keys (neurons net)))"
    by (simp only: size_mset)
  show ?thesis by (simp add: incoming_total_eq g s l)
qed

text \<open>
  Claim C4. One step of \<open>propagate_activation\<close>, for a neuron \<open>t\<close> of the network.
  If some neuron has a connection to \<open>t\<close>, the new value of \<open>t\<close> lies in \<open>[0, 100]\<close>
  and is the clamped blend of values that are all read from the state before the step.
  If no neuron has a connection to \<open>t\<close>, its state entry is unchanged. The state after
  the step does not depend on the order in which the neurons are visited.
\<close>

theorem propagate_step_properties:
  "t \<in> set (dict_keys (neurons net)) \<Longrightarrow>
     ((\<exists>s\<in>set (dict_keys (neurons net)). dict_in (s, t) (connections net)) \<longrightarrow>
        0 \<le> get_neuron_value (propagate_step net) t \<and>
        get_neuron_value (propagate_step net) t \<le> 100 \<and>
        map_of (state (propagate_step net)) t =
          Some (clamp_0_100 (get_neuron_value net t * (7 / 10) +
                  fst (incoming_total net t) / real (snd (incoming_total net t)) * (3 / 10)))) \<and>
     ((\<forall>s\<in>set (dict_keys (neurons net)). \<not> dict_in (s, t) (connections net)) \<longrightarrow>
        map_of (state (propagate_step net)) t = map_of (state net) t) \<and>
     (\<forall>ns'. mset ns' = mset (neurons net) \<longrightarrow>
        map_of (state (propagate_step (net\<lparr>neurons := ns'\<rparr>))) = map_of (state (propagate_step net)))"
proof (intro conjI impI allI)
  assume t: "t \<in> set (dict_keys (neurons net))"
    and ex: "\<exists>s\<in>set (dict_keys (neurons net)). dict_in (s, t) (connections net)"
  then have pos: "0 < snd (incoming_total net t)" by (simp add: incoming_count_pos)
  have m: "map_of (state (propagate_step net)) t = Some (blended net t)"
    using t pos by (simp add: propagate_step_def fold_propagate_target)
  then show "map_of (state (propagate_step net)) t =
          Some (clamp_0_100 (get_neuron_value net t * (7 / 10) +
                  fst (incoming_total net t) / real (snd (incoming_total net t)) * (3 / 10)))"
    by (simp add: blended_def)
  have v: "get_neuron_value (propagate_step net) t = py_float (blended net t)"
    using m unfolding blended_def by (rule get_neuron_value_clamped)
  show "0 \<le> get_neuron_value (propagate_step net) t"
    by (simp add: v blended_def clamp_0_100_bounds)
  show "get_neuron_value (propagate_step net) t \<le> 100"
    by (simp add: v blended_def clamp_0_100_bounds)
next
  assume "\<forall>s\<in>set (dict_keys (neurons net)). \<not> dict_in (s, t) (connections net)"
  then have "\<not> 0 < snd (incoming_total net t)" by (simp add: incoming_count_pos)
  then show "map_of (state (propagate_step net)) t = map_of (state net) t"
    by (simp add: propagate_step_def fold_propagate_target)
next
  fix ns' :: "(string, neuron) dict"
  assume p: "mset ns' = mset (neurons net)"
  have k: "set (dict_keys ns') = set (dict_keys (neurons net))"
    unfolding dict_keys_def using arg_cong [OF p, of set_mset] by simp
  have g: "get_neuron_value (net\<lparr>neurons := ns'\<rparr>) = get_neuron_value net"
    by (rule ext) (simp add: get_neuron_value_def)
  have b: "blended (net\<lparr>neurons := ns'\<rparr>) = blended net"
    by (rule ext) (simp add: blended_def incoming_total_perm [OF p] g)
  show "map_of (state (propagate_step (net\<lparr>neurons := ns'\<rparr>))) = map_of (state (propagate_step net))"
    by (rule ext) (simp add: propagate_step_def fold_propagate_target incoming_total_perm [OF p] k b)
qed

theorem propagate_step_properties_witness:
  "''B'' \<in> set (dict_keys (neurons scenario_network)) \<and>
   ''A'' \<in> set (dict_keys (neurons scenario_network)) \<and>
   dict_in (''A'', ''B'') (connections scenario_network) \<and>
   0 \<le> get_neuron_value (propagate_step scenario_network) ''B'' \<and>
   get_neuron_value (propagate_step scenario_network) ''B'' \<le> 100 \<and>
   \<not> dict_in (''A'', ''A'') (connections scenario_network) \<and>
   \<not> dict_in (''B'', ''A'') (connections scenario_network) \<and>
   map_of (state (propagate_step scenario_network)) ''A'' = map_of (state scenario_network) ''A'' \<and>
   mset (rev (neurons scenario_network)) = mset (neurons scenario_network) \<and>
   map_of (state (propagate_step (scenario_network\<lparr>neurons := rev (neurons scenario_network)\<rparr>))) =
     map_of (state (propagate_step scenario_network))"
proof -
  have d: "dict_in (''A'', ''B'') (connections scenario_network)"
    "\<not> dict_in (''A'', ''A'') (connections scenario_network)"
    "\<not> dict_in (''B'', ''A'') (connections scenario_network)"
    by (simp_all add: dict_in_iff dict_keys_def scenario_network_fields(2))
  have k: "dict_keys (neurons scenario_network) = [''A'', ''B'']"
    by (rule scenario_network_fields(1))
  have b: "''B'' \<in> set (dict_keys (neurons scenario_network))"
    and a: "''A'' \<in> set (dict_keys (neurons scenario_network))"
    by (simp_all add: k)
  have m: "mset (rev (neurons scenario_network)) = mset (neurons scenario_network)"
    by simp
  show ?thesis
    using propagate_step_properties [OF b] propagate_step_properties [OF a] d a b m
    by (simp add: k)
qed


section \<open>The debounce of Hebbian learning\<close>

lemma time_time_simps:
  "fst (time_time wd) = clock wd 0"
  "clock (snd (time_time wd)) n = clock wd (Suc n)"
  by (simp_all add: time_time_def)

lemma debounced_call:
  "clock wd 0 - last_learning_time h < 5 \<Longrightarrow>
     perform_hebbian_learning h net wd = (Inr [], h, net, snd (time_time wd))"
  by (simp add: perform_hebbian_learning_def time_time_def)

lemma update_connection_last_learning_time:
  "update_connection h net n1 n2 v1 v2 wd = Inr (h', net', wd') \<Longrightarrow>
     last_learning_time h' = last_learning_time h"
  by (auto simp add: update_connection_def reinforce_def set_weight_def time_time_def Let_def
      split: sum.splits option.splits)

lemma learn_pairs_last_learning_time:
  "learn_pairs h net active thr ps updated wd = (r, h', net', wd') \<Longrightarrow>
     last_learning_time h' = last_learning_time h"
proof (induction h net active thr ps updated wd rule: learn_pairs.induct)
  case (1 h net active thr updated wd)
  then show ?case by simp
next
  case (2 h net active thr i j ps updated wd)
  show ?case
  proof (cases "i < length active \<and> j < length active \<and>
      get_neuron_value net (active ! i) > thr \<and> get_neuron_value net (active ! j) > thr")
    case True
    show ?thesis
    proof (cases "update_connection h net (active ! i) (active ! j)
        (get_neuron_value net (active ! i)) (get_neuron_value net (active ! j)) wd")
      case (Inl e)
      with True "2.prems" show ?thesis by (simp add: Let_def)
    next
      case (Inr x)
      obtain h1 net1 wd1 where x: "x = (h1, net1, wd1)" by (cases x) auto
      have "last_learning_time h' = last_learning_time h1"
        using "2.IH"(1) [OF _ refl refl refl refl _ Inr [unfolded x]] True "2.prems" Inr x
        by (simp add: Let_def)
      then show ?thesis
        using update_connection_last_learning_time [OF Inr [unfolded x]] by simp
    qed
  next
    case False
    then show ?thesis
      using "2.prems" "2.IH"(2) by (auto simp add: Let_def split: if_splits)
  qed
qed

lemma perform_sets_last_learning_time:
  assumes "\<not> clock wd 0 - last_learning_time h < 5"
    and "perform_hebbian_learning h net wd = (r, h', net', wd')"
  shows "last_learning_time h' = clock wd 0"
  using assms
  by (auto simp add: perform_hebbian_learning_def time_time_def Let_def
      split: if_splits prod.splits dest!: learn_pairs_last_learning_time)

lemma scenario_network_eq:
  "scenario_network =
     \<lparr>config = Config_init,
      neurons = [(''A'', Neuron_init ''A'' None ''default'' None),
                 (''B'', Neuron_init ''B'' None ''default'' None)],
      connections = [((''A'', ''B''),
         \<lparr>source = ''A'', target = ''B'', weight = 1 / 2, last_update = 4, creation_time = 3,
          weight_history = [(5, 1 / 2)], bidirectional = False\<rparr>)],
      state = [(''A'', PInt 80), (''B'', PInt 90)],
      network_creation_time = 0, last_update_time = 1, update_count = 0,
      excluded_neurons = [], learning = None, neurogenesis_helper = None\<rparr>"
  by (simp add: scenario_network_def Network_init_def sample_world_def time_time_def
      add_neuron_def dict_in_def connect_def Connection_init_def set_weight_def Let_def)

lemma debounce_helper_eq:
  "debounce_helper =
     (\<lparr>last_learning_time = 0, learning_events = [], hebbian_excluded_neurons = [],
       learning_rate = 1 / 10\<rparr>,
      debounce_world\<lparr>clock := (\<lambda>n. if n = 0 then 4 else 6)\<rparr>)"
  by (simp add: debounce_helper_def HebbianLearning_init_def time_time_def debounce_world_def
      scenario_network_eq Config_init_def dict_get_def fun_eq_iff)

lemma debounce_first_call_eq:
  "debounce_first_call =
     (Inr [], fst debounce_helper, scenario_network, debounce_world\<lparr>clock := (\<lambda>n. 6)\<rparr>)"
  by (simp add: debounce_first_call_def debounce_helper_eq perform_hebbian_learning_def
      time_time_def debounce_world_def fun_eq_iff)

lemma debounce_second_call_result:
  "fst debounce_second_call = Inr [(''A'', ''B'')]"
  "map (\<lambda>(k, c). (k, weight c)) (connections (fst (snd (snd debounce_second_call)))) =
     [((''A'', ''B''), 572 / 1000), ((''B'', ''A''), 72 / 1000)]"
  by (simp_all add: debounce_second_call_def debounce_first_call_eq debounce_helper_eq
      perform_hebbian_learning_def time_time_def debounce_world_def scenario_network_eq
      Config_init_def dict_get_def dict_keys_def get_neuron_value_def Let_def
      update_connection_def ensure_connection_def reinforce_def connect_def dict_in_def
      Connection_init_def set_weight_def get_weight_def Neuron_init_def)


text \<open>
  Claim C6, as stated, fails: the helper remembers the time of the last call that got
  past the debounce, not of the last call. With the helper constructed at time 0, a
  call at time 4 is debounced and a call at time 6, two seconds later, runs a learning
  cycle: it returns the pair \<open>(A, B)\<close> and changes both weights.
\<close>

theorem debounce_between_calls_counterexample:
  "clock (snd debounce_helper) 0 = 4 \<and>
   fst debounce_first_call = Inr [] \<and>
   clock (snd (snd (snd debounce_first_call))) 0 = 6 \<and>
   fst debounce_second_call = Inr [(''A'', ''B'')] \<and>
   map (\<lambda>(k, c). (k, weight c)) (connections scenario_network) = [((''A'', ''B''), 1 / 2)] \<and>
   map (\<lambda>(k, c). (k, weight c)) (connections (fst (snd (snd debounce_second_call)))) =
     [((''A'', ''B''), 572 / 1000), ((''B'', ''A''), 72 / 1000)]"
  using debounce_second_call_result
  by (simp add: debounce_helper_eq debounce_first_call_eq scenario_network_eq)

text \<open>
  Claim C6, amended. When a call of \<open>perform_hebbian_learning\<close> got past the debounce
  (at least 5 seconds after the helper's last learning time) and the next call comes
  fewer than 5 seconds after it, that next call returns the empty list and leaves the
  helper and the network as they were, whatever the network and its configuration
  (so also its \<open>learning_interval\<close>) are at that moment.
\<close>

theorem debounce_after_learning_cycle:
  assumes "\<not> clock wd 0 - last_learning_time h < 5"
    and "perform_hebbian_learning h net wd = (r1, h1, net1, wd1)"
    and "clock wd' 0 - clock wd 0 < 5"
  shows "perform_hebbian_learning h1 net' wd' = (Inr [], h1, net', snd (time_time wd'))"
proof -
  have "last_learning_time h1 = clock wd 0"
    using assms(1,2) by (rule perform_sets_last_learning_time)
  with assms(3) show ?thesis by (simp add: debounced_call)
qed

theorem debounce_after_learning_cycle_witness:
  "\<not> clock (snd (snd (snd debounce_first_call))) 0 -
        last_learning_time (fst (snd debounce_first_call)) < 5 \<and>
   clock (snd (snd (snd debounce_second_call))) 0 -
        clock (snd (snd (snd debounce_first_call))) 0 < 5 \<and>
   fst debounce_second_call = Inr [(''A'', ''B'')] \<and>
   perform_hebbian_learning (fst (snd debounce_second_call))
       (fst (snd (snd debounce_second_call))) (snd (snd (snd debounce_second_call))) =
     (Inr [], fst (snd debounce_second_call), fst (snd (snd debounce_second_call)),
      snd (time_time (snd (snd (snd debounce_second_call)))))"
proof -
  let ?h = "fst (snd debounce_first_call)"
  let ?net = "fst (snd (snd debounce_first_call))"
  let ?wd = "snd (snd (snd debounce_first_call))"
  have a: "\<not> clock ?wd 0 - last_learning_time ?h < 5"
    by (simp add: debounce_first_call_eq debounce_helper_eq)
  have b: "perform_hebbian_learning ?h ?net ?wd =
      (fst debounce_second_call, fst (snd debounce_second_call),
       fst (snd (snd debounce_second_call)), snd (snd (snd debounce_second_call)))"
    by (simp add: debounce_second_call_def case_prod_beta)
  have w: "clock ?wd = (\<lambda>n. 6)"
    by (simp add: debounce_first_call_eq)
  have "\<exists>wd2. snd (snd (snd debounce_second_call)) = wd2 \<and> clock wd2 0 = 6"
    by (simp add: debounce_second_call_def debounce_first_call_eq debounce_helper_eq
      perform_hebbian_learning_def time_time_def debounce_world_def scenario_network_eq
      Config_init_def dict_get_def dict_keys_def get_neuron_value_def Let_def
      update_connection_def ensure_connection_def reinforce_def connect_def dict_in_def
      Connection_init_def set_weight_def get_weight_def Neuron_init_def)
  then have c: "clock (snd (snd (snd debounce_second_call))) 0 - clock ?wd 0 < 5"
    by (simp add: w)
  show ?thesis
    using debounce_after_learning_cycle [OF a b c] a c debounce_second_call_result(1)
    by simp
qed




section \<open>Neurogenesis\<close>

lemma py_add_numeric:
  "isinstance v T_int \<or> isinstance v T_float \<Longrightarrow> py_add x v = Inr (x + py_float v)"
  by (cases v) auto

text \<open>
  Claim C7. A call of \<open>check_neurogenesis\<close> during the cooldown, with numeric signals
  (a missing key counts as 0): it returns \<open>False\<close>, the network is unchanged, and each
  counter is its old value times the decay rate plus its signal.
\<close>

theorem cooldown_still_updates_counters:
  assumes "clock wd 0 - last_neuron_time g \<le> dict_get (neurogenesis (config net)) ''cooldown'' 300"
    and "isinstance (dict_get st ''novelty_exposure'' (PInt 0)) T_int \<or>
         isinstance (dict_get st ''novelty_exposure'' (PInt 0)) T_float"
    and "isinstance (dict_get st ''sustained_stress'' (PInt 0)) T_int \<or>
         isinstance (dict_get st ''sustained_stress'' (PInt 0)) T_float"
    and "isinstance (dict_get st ''recent_rewards'' (PInt 0)) T_int \<or>
         isinstance (dict_get st ''recent_rewards'' (PInt 0)) T_float"
  shows "check_neurogenesis g net st wd =
     (Inr False,
      g\<lparr>novelty_counter :=
           novelty_counter g * dict_get (neurogenesis (config net)) ''decay_rate'' (95 / 100) +
           py_float (dict_get st ''novelty_exposure'' (PInt 0)),
        stress_counter :=
           stress_counter g * dict_get (neurogenesis (config net)) ''decay_rate'' (95 / 100) +
           py_float (dict_get st ''sustained_stress'' (PInt 0)),
        reward_counter :=
           reward_counter g * dict_get (neurogenesis (config net)) ''decay_rate'' (95 / 100) +
           py_float (dict_get st ''recent_rewards'' (PInt 0))\<rparr>,
      net, snd (time_time wd))"
  using assms(1)
  by (simp add: check_neurogenesis_def time_time_def Let_def
      py_add_numeric [OF assms(2)] py_add_numeric [OF assms(3)] py_add_numeric [OF assms(4)])

theorem cooldown_still_updates_counters_witness:
  "clock sample_world 0 - 0 \<le> dict_get (neurogenesis (config scenario_network)) ''cooldown'' 300 \<and>
   check_neurogenesis
       \<lparr>novelty_counter = 2, stress_counter = 1, reward_counter = 0, new_neurons = [],
        last_neuron_time = 0\<rparr>
       scenario_network [(''novelty_exposure'', PFloat 4)] sample_world =
     (Inr False,
      \<lparr>novelty_counter = 59 / 10, stress_counter = 95 / 100, reward_counter = 0,
       new_neurons = [], last_neuron_time = 0\<rparr>,
      scenario_network, snd (time_time sample_world))"
  using cooldown_still_updates_counters
    [of sample_world
        "\<lparr>novelty_counter = 2, stress_counter = 1, reward_counter = 0, new_neurons = [],
          last_neuron_time = 0\<rparr>"
        scenario_network "[(''novelty_exposure'', PFloat 4)]"]
  by (simp add: dict_get_def scenario_network_eq Config_init_def sample_world_def)

lemma collision_network_eq:
  "collision_network =
     \<lparr>config = Config_init,
      neurons = [(''novel_0'', Neuron_init ''novel_0'' None ''default'' None)],
      connections = [],
      state = [(''novel_0'', PInt 0)],
      network_creation_time = 0, last_update_time = 1000, update_count = 0,
      excluded_neurons = [], learning = None, neurogenesis_helper = None\<rparr>"
  by (simp add: collision_network_def Network_init_def slow_world_def time_time_def
      add_neuron_def dict_in_def Let_def)

text \<open>
  Claim C8. The claim says that \<open>check_neurogenesis\<close> never raises, also when the name
  of the neuron to create is taken. On a network that has a neuron \<open>novel_0\<close>, a fresh
  helper whose novelty trigger fires raises the \<open>ValueError\<close> of \<open>add_neuron\<close>.
\<close>

theorem check_neurogenesis_raises_on_taken_name:
  "fst collision_call = Inl (ValueError (''Neuron '' @ quoted ''novel_0'' @ '' already exists''))"
  by (simp add: collision_call_def Neurogenesis_init_def check_neurogenesis_def time_time_def
      slow_world_def collision_network_eq Config_init_def dict_get_def Let_def
      create_neuron_def find_position_for_new_neuron_def dict_keys_def get_position_def
      Neuron_init_def random_uniform_def random_random_def add_neuron_def dict_in_def
      get_neuron_value_def quoted_def digit_char_def string_of_nat.simps)

section \<open>Every write of a weight is clamped and logged\<close>

lemma set_weight_written:
  "written_from c (snd (fst (set_weight c w wd))) (clock wd 0) (clock wd 1)"
  by (simp add: set_weight_def time_time_def written_from_def Let_def)

lemma set_weight_world:
  "clock (snd (set_weight c w wd)) n = clock wd (Suc (Suc n))"
  by (simp add: set_weight_def time_time_def Let_def)

lemma Connection_init_written:
  "- 1 \<le> weight (fst (Connection_init s t w b wd)) \<and>
   weight (fst (Connection_init s t w b wd)) \<le> 1 \<and>
   last_update (fst (Connection_init s t w b wd)) = clock wd 2 \<and>
   weight_history (fst (Connection_init s t w b wd)) =
     [(clock wd 3, weight (fst (Connection_init s t w b wd)))]"
  by (simp add: Connection_init_def set_weight_def time_time_def Let_def
      numeral_2_eq_2 numeral_3_eq_3)

lemma apply_decay_written:
  "written_from c (snd (fst (apply_decay c f wd))) (clock wd 0) (clock wd 1)"
  unfolding apply_decay_def by (rule set_weight_written)

lemma reinforce_connections:
  "connections (fst (snd (reinforce h net n1 n2 v1 v2 fc bc wd))) =
     AList.update (n2, n1)
       (snd (fst (set_weight
          (if (n2, n1) = (n1, n2)
           then snd (fst (set_weight fc (get_weight fc + learning_rate h * (v1 / 100) * (v2 / 100)) wd))
           else bc)
          (get_weight bc + learning_rate h * (v1 / 100) * (v2 / 100))
          (snd (set_weight fc (get_weight fc + learning_rate h * (v1 / 100) * (v2 / 100)) wd)))))
       (AList.update (n1, n2)
          (snd (fst (set_weight fc (get_weight fc + learning_rate h * (v1 / 100) * (v2 / 100)) wd)))
          (connections net))"
  by (simp add: reinforce_def Let_def case_prod_beta)

lemma reinforce_written:
  "\<exists>mid c2.
     written_from fc mid (clock wd 0) (clock wd 1) \<and>
     written_from (if n1 = n2 then mid else bc) c2 (clock wd 2) (clock wd 3) \<and>
     map_of (connections (fst (snd (reinforce h net n1 n2 v1 v2 fc bc wd)))) (n2, n1) = Some c2 \<and>
     map_of (connections (fst (snd (reinforce h net n1 n2 v1 v2 fc bc wd)))) (n1, n2) =
       Some (if n1 = n2 then c2 else mid)"
proof -
  let ?d = "learning_rate h * (v1 / 100) * (v2 / 100)"
  let ?s1 = "set_weight fc (get_weight fc + ?d) wd"
  let ?mid = "snd (fst ?s1)"
  have w1: "written_from fc ?mid (clock wd 0) (clock wd 1)"
    by (rule set_weight_written)
  have t2: "clock (snd ?s1) 0 = clock wd 2" "clock (snd ?s1) 1 = clock wd 3"
    by (simp_all add: set_weight_world numeral_2_eq_2 numeral_3_eq_3)
  show ?thesis
  proof (cases "n1 = n2")
    case True
    let ?c2 = "snd (fst (set_weight ?mid (get_weight bc + ?d) (snd ?s1)))"
    have "written_from ?mid ?c2 (clock (snd ?s1) 0) (clock (snd ?s1) 1)"
      by (rule set_weight_written)
    then have w2: "written_from ?mid ?c2 (clock wd 2) (clock wd 3)"
      by (simp only: t2)
    have m: "map_of (connections (fst (snd (reinforce h net n1 n2 v1 v2 fc bc wd)))) (n2, n1) = Some ?c2"
      using True by (simp add: reinforce_connections update_conv')
    show ?thesis
      using w1 w2 m True by (intro exI [of _ ?mid] exI [of _ ?c2]) simp
  next
    case False
    let ?c2 = "snd (fst (set_weight bc (get_weight bc + ?d) (snd ?s1)))"
    have "written_from bc ?c2 (clock (snd ?s1) 0) (clock (snd ?s1) 1)"
      by (rule set_weight_written)
    then have w2: "written_from bc ?c2 (clock wd 2) (clock wd 3)"
      by (simp only: t2)
    have m: "map_of (connections (fst (snd (reinforce h net n1 n2 v1 v2 fc bc wd)))) (n2, n1) = Some ?c2"
      "map_of (connections (fst (snd (reinforce h net n1 n2 v1 v2 fc bc wd)))) (n1, n2) = Some ?mid"
      using False by (simp_all add: reinforce_connections update_conv')
    show ?thesis
      using w1 w2 m False by (intro exI [of _ ?mid] exI [of _ ?c2]) simp
  qed
qed

lemma update_weight_step_connections:
  "connections (fst (snd (snd (update_weight_step bp net dl out key conn wd)))) =
     AList.update key
       (snd (fst (set_weight conn
          (get_weight conn +
           (case map_of (prev_weight_changes bp) key of
              None \<Rightarrow> bp_learning_rate bp * dl * out
            | Some prev \<Rightarrow> bp_learning_rate bp * dl * out + momentum bp * prev)) wd)))
       (connections net)"
  by (simp add: update_weight_step_def Let_def case_prod_beta)

lemma update_weight_step_written:
  "\<exists>c1. map_of (connections (fst (snd (snd (update_weight_step bp net dl out key conn wd))))) key = Some c1 \<and>
        written_from conn c1 (clock wd 0) (clock wd 1)"
  using set_weight_written [of conn _ wd]
  by (simp add: update_weight_step_connections update_conv')

lemma list_all_update:
  "list_all P al \<Longrightarrow> P (k, v) \<Longrightarrow> list_all P (AList.update k v al)"
  by (induction al) auto

lemma set_weight_range:
  "- 1 \<le> weight (snd (fst (set_weight c w wd))) \<and> weight (snd (fst (set_weight c w wd))) \<le> 1"
  using set_weight_written [of c w wd] by (simp add: written_from_def)

lemma Connection_init_range:
  "- 1 \<le> weight (fst (Connection_init s t w b wd)) \<and> weight (fst (Connection_init s t w b wd)) \<le> 1"
  using Connection_init_written [of s t w b wd] by simp

lemma connect_range:
  assumes "connect net s t w b wd = Inr (c, net', wd')" and "weights_in_range net"
  shows "weights_in_range net'"
  using assms
  by (auto simp add: connect_def weights_in_range_def case_prod_beta Let_def list_all_update
      Connection_init_range split: if_splits)

lemma ensure_connection_range:
  assumes "ensure_connection net a b wd = Inr (net', wd')" and "weights_in_range net"
  shows "weights_in_range net'"
  using assms
  by (auto simp add: ensure_connection_def split: if_splits sum.splits dest: connect_range)

lemma reinforce_range:
  assumes "weights_in_range net"
  shows "weights_in_range (fst (snd (reinforce h net n1 n2 v1 v2 fc bc wd)))"
  using assms
  by (simp add: reinforce_def Let_def case_prod_beta weights_in_range_def list_all_update
      set_weight_range)

lemma update_connection_range:
  assumes "update_connection h net n1 n2 v1 v2 wd = Inr (h', net', wd')" and "weights_in_range net"
  shows "weights_in_range net'"
proof -
  from assms(1) obtain net1 wd1 net2 wd2 fc bc where
    e1: "ensure_connection net n1 n2 wd = Inr (net1, wd1)" and
    e2: "ensure_connection net1 n2 n1 wd1 = Inr (net2, wd2)" and
    r: "reinforce h net2 n1 n2 v1 v2 fc bc wd2 = (h', net', wd')"
    by (auto simp add: update_connection_def split: sum.splits option.splits)
  have "weights_in_range net2"
    using ensure_connection_range [OF e2 ensure_connection_range [OF e1 assms(2)]] .
  then have "weights_in_range (fst (snd (reinforce h net2 n1 n2 v1 v2 fc bc wd2)))"
    by (rule reinforce_range)
  then show ?thesis by (simp add: r)
qed

lemma learn_pairs_range:
  "weights_in_range net \<Longrightarrow>
     weights_in_range (fst (snd (snd (learn_pairs h net active thr ps updated wd))))"
proof (induction h net active thr ps updated wd rule: learn_pairs.induct)
  case (1 h net active thr updated wd)
  then show ?case by simp
next
  case (2 h net active thr i j ps updated wd)
  show ?case
  proof (cases "i < length active \<and> j < length active")
    case False
    then show ?thesis using "2.prems" by auto
  next
    case ij: True
    show ?thesis
    proof (cases "get_neuron_value net (active ! i) > thr \<and> get_neuron_value net (active ! j) > thr")
      case False
      then show ?thesis
        using ij "2.prems" "2.IH"(2) [OF ij refl refl refl refl] by (auto simp add: Let_def)
    next
      case v: True
      show ?thesis
      proof (cases "update_connection h net (active ! i) (active ! j)
          (get_neuron_value net (active ! i)) (get_neuron_value net (active ! j)) wd")
        case (Inl e)
        then show ?thesis using ij v "2.prems" by (simp add: Let_def)
      next
        case (Inr x)
        obtain h1 net1 wd1 where x: "x = (h1, net1, wd1)" by (cases x) auto
        have r: "weights_in_range net1"
          using update_connection_range [OF Inr [unfolded x] "2.prems"] .
        show ?thesis
          using "2.IH"(1) [OF ij refl refl refl refl v Inr [unfolded x] refl refl r] ij v Inr x
          by (simp add: Let_def)
      qed
    qed
  qed
qed

lemma perform_hebbian_learning_range:
  "weights_in_range net \<Longrightarrow>
     weights_in_range (fst (snd (snd (perform_hebbian_learning h net wd))))"
  by (simp add: perform_hebbian_learning_def Let_def case_prod_beta learn_pairs_range)

lemma update_weight_step_range:
  "weights_in_range net \<Longrightarrow>
     weights_in_range (fst (snd (snd (update_weight_step bp net dl out key conn wd))))"
  by (simp add: update_weight_step_def Let_def case_prod_beta weights_in_range_def
      list_all_update set_weight_range)

lemma update_weights_next_range:
  "weights_in_range net \<Longrightarrow>
     weights_in_range (fst (snd (snd (update_weights_next bp net deltas nm out ns total_changes wd))))"
proof (induction bp net deltas nm out ns total_changes wd rule: update_weights_next.induct)
  case (1 bp net deltas nm out total_changes wd)
  then show ?case by simp
next
  case (2 bp net deltas nm out next_neuron rest total_changes wd)
  show ?case
  proof (cases "map_of (connections net) (nm, next_neuron)")
    case None
    then show ?thesis using "2.prems" "2.IH"(1) by simp
  next
    case (Some conn)
    show ?thesis
    proof (cases "map_of deltas next_neuron")
      case None
      then show ?thesis using Some "2.prems" by simp
    next
      case dl: (Some dl)
      obtain change bp1 net1 wd1 where
        u: "update_weight_step bp net dl out (nm, next_neuron) conn wd = (change, bp1, net1, wd1)"
        by (cases "update_weight_step bp net dl out (nm, next_neuron) conn wd") auto
      have "weights_in_range (fst (snd (snd (update_weight_step bp net dl out (nm, next_neuron) conn wd))))"
        using "2.prems" by (rule update_weight_step_range)
      then have r: "weights_in_range net1" by (simp add: u)
      show ?thesis
        using "2.IH"(2) [OF Some dl u [symmetric] refl refl r] Some dl u by simp
    qed
  qed
qed

lemma update_weights_layer_range:
  "weights_in_range net \<Longrightarrow>
     weights_in_range (fst (snd (snd (update_weights_layer bp net deltas cur nxt total_changes wd))))"
proof (induction bp net deltas cur nxt total_changes wd rule: update_weights_layer.induct)
  case (1 bp net deltas next_layer total_changes wd)
  then show ?case by simp
next
  case (2 bp net deltas nm rest next_layer total_changes wd)
  show ?case
  proof (cases "state_div_100 net nm")
    case (Inl e)
    then show ?thesis using "2.prems" by simp
  next
    case (Inr out)
    obtain r bp1 net1 wd1 where
      u: "update_weights_next bp net deltas nm out next_layer total_changes wd = (r, bp1, net1, wd1)"
      by (cases "update_weights_next bp net deltas nm out next_layer total_changes wd") auto
    have "weights_in_range (fst (snd (snd (update_weights_next bp net deltas nm out next_layer total_changes wd))))"
      using "2.prems" by (rule update_weights_next_range)
    then have n1: "weights_in_range net1" by (simp add: u)
    show ?thesis
    proof (cases r)
      case (Inl e)
      then show ?thesis using Inr u n1 by simp
    next
      case r: (Inr total_changes1)
      show ?thesis
        using "2.IH" [OF Inr u [unfolded r, symmetric] refl refl refl n1] Inr u r by simp
    qed
  qed
qed

lemma update_weights_range:
  "weights_in_range net \<Longrightarrow>
     weights_in_range (fst (snd (snd (update_weights bp net deltas pairs total_changes wd))))"
proof (induction bp net deltas pairs total_changes wd rule: update_weights.induct)
  case (1 bp net deltas total_changes wd)
  then show ?case by simp
next
  case (2 bp net deltas current_layer next_layer rest total_changes wd)
  obtain r bp1 net1 wd1 where
    u: "update_weights_layer bp net deltas current_layer next_layer total_changes wd = (r, bp1, net1, wd1)"
    by (cases "update_weights_layer bp net deltas current_layer next_layer total_changes wd") auto
  have "weights_in_range (fst (snd (snd (update_weights_layer bp net deltas current_layer next_layer total_changes wd))))"
    using "2.prems" by (rule update_weights_layer_range)
  then have n1: "weights_in_range net1" by (simp add: u)
  show ?case
  proof (cases r)
    case (Inl e)
    then show ?thesis using u n1 by simp
  next
    case r: (Inr total_changes1)
    show ?thesis
      using "2.IH" [OF u [unfolded r, symmetric] refl refl refl n1] u r by simp
  qed
qed

lemma update_weights_range_result:
  assumes "update_weights bp net deltas pairs total_changes wd = (r, bp1, net1, wd1)"
    and "weights_in_range net"
  shows "weights_in_range net1"
  using update_weights_range [OF assms(2), of bp deltas pairs total_changes wd] assms(1) by simp

lemma backward_pass_range:
  assumes "weights_in_range net"
  shows "weights_in_range (fst (snd (snd (backward_pass bp net targets wd))))"
  using assms
  by (auto simp add: backward_pass_def Let_def split: sum.splits prod.splits
      dest: update_weights_range_result)


text \<open>
  Claim C2. Every path that writes a weight goes through \<open>set_weight\<close>, whatever the
  requested value is. After \<open>set_weight\<close> and after \<open>apply_decay\<close> the stored weight
  lies in \<open>[-1, 1]\<close>, the last update carries the time read first, and the history is
  the old one (cut to its last 99 entries) with the stored weight and the time read
  second appended. A new connection has its weight in \<open>[-1, 1]\<close> and a history of that
  one entry. The same holds for the two writes of a Hebbian reinforcement (which act on
  one connection after the other, or twice on the same one when both keys agree) and
  for the write of a weight update of the backward pass. A network whose stored weights
  all lie in \<open>[-1, 1]\<close> keeps that property through \<open>connect\<close>, through a whole call
  of \<open>perform_hebbian_learning\<close> and through a whole \<open>backward_pass\<close>, also when the
  call ends with an error.
\<close>

theorem weight_writes_clamped_and_logged:
  "written_from c (snd (fst (set_weight c w wd))) (clock wd 0) (clock wd 1) \<and>
   (- 1 \<le> weight (fst (Connection_init s t w b wd)) \<and>
    weight (fst (Connection_init s t w b wd)) \<le> 1 \<and>
    last_update (fst (Connection_init s t w b wd)) = clock wd 2 \<and>
    weight_history (fst (Connection_init s t w b wd)) =
      [(clock wd 3, weight (fst (Connection_init s t w b wd)))]) \<and>
   written_from c (snd (fst (apply_decay c f wd))) (clock wd 0) (clock wd 1) \<and>
   (\<exists>mid c2.
      written_from fc mid (clock wd 0) (clock wd 1) \<and>
      written_from (if n1 = n2 then mid else bc) c2 (clock wd 2) (clock wd 3) \<and>
      map_of (connections (fst (snd (reinforce h net n1 n2 v1 v2 fc bc wd)))) (n2, n1) = Some c2 \<and>
      map_of (connections (fst (snd (reinforce h net n1 n2 v1 v2 fc bc wd)))) (n1, n2) =
        Some (if n1 = n2 then c2 else mid)) \<and>
   (\<exists>c1.
      map_of (connections (fst (snd (snd (update_weight_step bp net dl out key conn wd))))) key = Some c1 \<and>
      written_from conn c1 (clock wd 0) (clock wd 1)) \<and>
   (weights_in_range net \<longrightarrow>
      weights_in_range (case connect net s t w b wd of Inl e \<Rightarrow> net | Inr (c', net', wd') \<Rightarrow> net') \<and>
      weights_in_range (fst (snd (snd (perform_hebbian_learning h net wd)))) \<and>
      weights_in_range (fst (snd (snd (backward_pass bp net targets wd)))))"
proof (intro conjI impI)
  show "written_from c (snd (fst (set_weight c w wd))) (clock wd 0) (clock wd 1)"
    by (rule set_weight_written)
  show "- 1 \<le> weight (fst (Connection_init s t w b wd))"
    "weight (fst (Connection_init s t w b wd)) \<le> 1"
    "last_update (fst (Connection_init s t w b wd)) = clock wd 2"
    "weight_history (fst (Connection_init s t w b wd)) =
      [(clock wd 3, weight (fst (Connection_init s t w b wd)))]"
    using Connection_init_written [of s t w b wd] by simp_all
  show "written_from c (snd (fst (apply_decay c f wd))) (clock wd 0) (clock wd 1)"
    by (rule apply_decay_written)
  show "\<exists>mid c2.
      written_from fc mid (clock wd 0) (clock wd 1) \<and>
      written_from (if n1 = n2 then mid else bc) c2 (clock wd 2) (clock wd 3) \<and>
      map_of (connections (fst (snd (reinforce h net n1 n2 v1 v2 fc bc wd)))) (n2, n1) = Some c2 \<and>
      map_of (connections (fst (snd (reinforce h net n1 n2 v1 v2 fc bc wd)))) (n1, n2) =
        Some (if n1 = n2 then c2 else mid)"
    by (rule reinforce_written)
  show "\<exists>c1.
      map_of (connections (fst (snd (snd (update_weight_step bp net dl out key conn wd))))) key = Some c1 \<and>
      written_from conn c1 (clock wd 0) (clock wd 1)"
    by (rule update_weight_step_written)
next
  assume r: "weights_in_range net"
  show "weights_in_range (case connect net s t w b wd of Inl e \<Rightarrow> net | Inr (c', net', wd') \<Rightarrow> net')"
    using r by (auto split: sum.splits dest: connect_range)
  show "weights_in_range (fst (snd (snd (perform_hebbian_learning h net wd))))"
    using r by (rule perform_hebbian_learning_range)
  show "weights_in_range (fst (snd (snd (backward_pass bp net targets wd))))"
    using r by (rule backward_pass_range)
qed

theorem weight_writes_clamped_and_logged_witness:
  "weights_in_range scenario_network \<and>
   weights_in_range
     (case connect scenario_network ''B'' ''A'' 1000 False sample_world of
        Inl e \<Rightarrow> scenario_network | Inr (c', net', wd') \<Rightarrow> net') \<and>
   weights_in_range
     (fst (snd (snd (perform_hebbian_learning (fst debounce_helper) scenario_network
        (debounce_world\<lparr>clock := (\<lambda>n. 6)\<rparr>))))) \<and>
   weights_in_range
     (fst (snd (snd (backward_pass (set_layers BackpropNetwork_init [[''A''], [''B'']])
        scenario_network [100] sample_world)))) \<and>
   weight (fst (Connection_init ''B'' ''A'' 1000 False sample_world)) \<le> 1 \<and>
   weight_history (fst (Connection_init ''B'' ''A'' 1000 False sample_world)) =
     [(3, weight (fst (Connection_init ''B'' ''A'' 1000 False sample_world)))]"
proof -
  have r: "weights_in_range scenario_network"
    by (simp add: weights_in_range_def scenario_network_eq)
  show ?thesis
    using weight_writes_clamped_and_logged
      [where w = 1000 and wd = sample_world and s = "''B''" and t = "''A''" and b = False
         and net = scenario_network and h = "fst debounce_helper"
         and bp = "set_layers BackpropNetwork_init [[''A''], [''B'']]" and targets = "[100]"]
      weight_writes_clamped_and_logged
      [where w = 1000 and wd = "debounce_world\<lparr>clock := (\<lambda>n. 6)\<rparr>" and s = "''B''"
         and t = "''A''" and b = False and net = scenario_network and h = "fst debounce_helper"]
      r
    by (simp add: sample_world_def)
qed

section \<open>Training on an empty data set\<close>

text \<open>With no epoch to run, the loop body is never entered and \<open>train\<close> returns \<open>[]\<close>.\<close>

lemma train_no_epoch:
  "train bp net training_data 0 target_error callback wd = (Inr [], bp, net, training_data, wd)"
  by (simp add: train_def)

text \<open>
  Claim C10. \<open>train\<close> on an empty list of training data, with at least one epoch to
  run: the first epoch shuffles the empty list, runs no forward or backward pass and
  raises \<open>ZeroDivisionError\<close> when it divides the epoch error by the length of the
  data; the helper, the network and the environment are as before the call.
  \<open>test\<close> on an empty data set returns 0.
\<close>

theorem train_empty_data_raises:
  "(0 < epochs \<longrightarrow>
      train bp net [] epochs target_error callback wd = (Inl ZeroDivisionError, bp, net, [], wd)) \<and>
   test bp net [] = (Inr 0, net)"
  by (cases epochs) (simp_all add: train_def test_def random_shuffle_def)

theorem train_empty_data_raises_witness:
  "0 < (100 :: nat) \<and>
   train (set_layers BackpropNetwork_init [[''A''], [''B'']]) scenario_network [] 100 (1 / 100)
       None sample_world =
     (Inl ZeroDivisionError, set_layers BackpropNetwork_init [[''A''], [''B'']],
      scenario_network, [], sample_world) \<and>
   test (set_layers BackpropNetwork_init [[''A''], [''B'']]) scenario_network [] =
     (Inr 0, scenario_network)"
  using train_empty_data_raises
    [of 100 "set_layers BackpropNetwork_init [[''A''], [''B'']]" scenario_network "1 / 100"
        None sample_world]
  by simp

section \<open>Saving and loading\<close>

lemma update_fresh: "k \<notin> fst ` set al \<Longrightarrow> AList.update k v al = al @ [(k, v)]"
  by (induction al) auto

lemma update_last: "k \<notin> fst ` set al \<Longrightarrow> AList.update k v (al @ [(k, w)]) = al @ [(k, v)]"
  by (induction al) auto

lemma map_of_last: "k \<notin> fst ` set al \<Longrightarrow> map_of (al @ [(k, v)]) k = Some v"
  by (induction al) auto

lemma py_split_no_sep: "sep \<notin> set s \<Longrightarrow> py_split sep s = [s]"
  by (induction s) auto

lemma py_split_append: "sep \<notin> set s \<Longrightarrow> py_split sep (s @ sep # t) = s # py_split sep t"
  by (induction s) auto

lemma py_split_key:
  "CHR ''_'' \<notin> set s \<Longrightarrow> CHR ''_'' \<notin> set t \<Longrightarrow>
     py_split (CHR ''_'') (connection_key (s, t)) = [s, t]"
  by (simp add: connection_key_def py_split_append py_split_no_sep)

lemma connection_key_inj:
  assumes "CHR ''_'' \<notin> set s" "CHR ''_'' \<notin> set t" "CHR ''_'' \<notin> set s'" "CHR ''_'' \<notin> set t'"
    and "connection_key (s, t) = connection_key (s', t')"
  shows "s = s' \<and> t = t'"
proof -
  have "py_split (CHR ''_'') (connection_key (s, t)) = py_split (CHR ''_'') (connection_key (s', t'))"
    using assms(5) by simp
  then have "[s, t] = [s', t']"
    using py_split_key [OF assms(1,2)] py_split_key [OF assms(3,4)] by simp
  then show ?thesis by simp
qed

lemma save_fold:
  "distinct (map (\<lambda>kc. connection_key (fst kc)) cs) \<Longrightarrow>
   fst ` set acc \<inter> set (map (\<lambda>kc. connection_key (fst kc)) cs) = {} \<Longrightarrow>
     fold (\<lambda>(k, conn). AList.update (connection_key k) (connection_entry conn)) cs acc =
       acc @ map (\<lambda>kc. (connection_key (fst kc), connection_entry (snd kc))) cs"
proof (induction cs arbitrary: acc)
  case Nil
  show ?case by simp
next
  case (Cons kc cs)
  obtain k c where kc: "kc = (k, c)" by (cases kc) auto
  have f: "connection_key k \<notin> fst ` set acc"
    using Cons.prems(2) by (auto simp add: kc)
  have d: "distinct (map (\<lambda>kc. connection_key (fst kc)) cs)" using Cons.prems(1) by simp
  have i: "fst ` set (acc @ [(connection_key k, connection_entry c)]) \<inter>
      set (map (\<lambda>kc. connection_key (fst kc)) cs) = {}"
    using Cons.prems by (auto simp add: kc)
  show ?case
    using Cons.IH [OF d i] update_fresh [OF f] by (simp add: kc)
qed

text \<open>Values that come back from the file as they were written.\<close>

lemma coordinates_list: "coordinates (case coordinates p of (x, y) \<Rightarrow> PosList x y) = coordinates p"
  by (cases p) simp_all

lemma json_dict_unchanged:
  "list_all (\<lambda>kv. json_value (snd kv) = Some (snd kv)) d \<Longrightarrow> json_dict d = Some d"
proof (induction d)
  case Nil
  show ?case by (simp add: json_dict_def)
next
  case (Cons kv d)
  then show ?case by (cases kv) (simp add: json_dict_def)
qed

lemma neuron_entries_unchanged:
  "list_all (\<lambda>kn. list_all (\<lambda>kv. json_value (snd kv) = Some (snd kv)) (attributes (snd kn))) ns \<Longrightarrow>
     those (map (\<lambda>(nm, n). map_option (Pair nm) (neuron_entry n)) ns) =
       Some (map (\<lambda>(nm, n). (nm, \<lparr>j_position = Some (coordinates (get_position n)),
                                    j_type = Some (neuron_type n),
                                    j_attributes = Some (attributes n)\<rparr>)) ns)"
proof (induction ns)
  case Nil
  show ?case by simp
next
  case (Cons kn ns)
  then show ?case
    by (cases kn) (simp add: neuron_entry_def json_dict_unchanged)
qed

text \<open>Loading the neurons of a document.\<close>

lemma load_neurons_result:
  "distinct (map fst js) \<Longrightarrow> fst ` set (neurons net) \<inter> set (map fst js) = {} \<Longrightarrow>
     \<exists>net1. load_neurons net js = Inr net1 \<and>
       neurons net1 = neurons net @
         map (\<lambda>(nm, nd). (nm, Neuron_init nm (map_option (\<lambda>(x, y). PosList x y) (j_position nd))
                (case j_type nd of None \<Rightarrow> ''default'' | Some ty \<Rightarrow> ty)
                (Some (case j_attributes nd of None \<Rightarrow> [] | Some a \<Rightarrow> a)))) js \<and>
       connections net1 = connections net \<and> config net1 = config net"
proof (induction js arbitrary: net)
  case Nil
  show ?case by simp
next
  case (Cons j js)
  obtain nm nd where j: "j = (nm, nd)" by (cases j) auto
  let ?n = "Neuron_init nm (map_option (\<lambda>(x, y). PosList x y) (j_position nd))
                (case j_type nd of None \<Rightarrow> ''default'' | Some ty \<Rightarrow> ty)
                (Some (case j_attributes nd of None \<Rightarrow> [] | Some a \<Rightarrow> a))"
  let ?net1 = "net\<lparr>neurons := AList.update nm ?n (neurons net),
                    state := AList.update nm (PInt 0) (state net)\<rparr>"
  have f: "nm \<notin> fst ` set (neurons net)"
    using Cons.prems(2) by (auto simp add: j)
  then have a: "add_neuron net nm (PInt 0) (map_option (\<lambda>(x, y). PosList x y) (j_position nd))
                (case j_type nd of None \<Rightarrow> ''default'' | Some ty \<Rightarrow> ty)
                (Some (case j_attributes nd of None \<Rightarrow> [] | Some a \<Rightarrow> a)) = Inr (?n, ?net1)"
    by (simp add: add_neuron_def dict_in_def map_of_eq_None_iff Let_def)
  have n1: "neurons ?net1 = neurons net @ [(nm, ?n)]"
    using update_fresh [OF f] by simp
  have d: "distinct (map fst js)" using Cons.prems(1) by simp
  have i: "fst ` set (neurons ?net1) \<inter> set (map fst js) = {}"
    using Cons.prems by (auto simp add: n1 j)
  from Cons.IH [OF d i] obtain net2 where
    r: "load_neurons ?net1 js = Inr net2"
       "neurons net2 = neurons ?net1 @
         map (\<lambda>(nm, nd). (nm, Neuron_init nm (map_option (\<lambda>(x, y). PosList x y) (j_position nd))
                (case j_type nd of None \<Rightarrow> ''default'' | Some ty \<Rightarrow> ty)
                (Some (case j_attributes nd of None \<Rightarrow> [] | Some a \<Rightarrow> a)))) js"
       "connections net2 = connections ?net1" "config net2 = config ?net1"
    by blast
  show ?case
    using r a n1 by (simp add: j)
qed

lemma Connection_init_weight:
  "weight (fst (Connection_init s t w b wd)) = max (- 1) (min 1 w)"
  "creation_time (fst (Connection_init s t w b wd)) = clock wd 1"
  by (simp_all add: Connection_init_def set_weight_def time_time_def Let_def)

lemma connect_fresh:
  assumes "dict_in s (neurons net)" and "dict_in t (neurons net)"
    and "(s, t) \<notin> fst ` set (connections net)"
  shows "connect net s t w False wd =
     Inr (fst (Connection_init s t w False wd),
          net\<lparr>connections := connections net @ [((s, t), fst (Connection_init s t w False wd))]\<rparr>,
          snd (Connection_init s t w False wd))"
  using assms update_fresh [OF assms(3)]
  by (simp add: connect_def case_prod_beta Let_def)

text \<open>One connection of the document, loaded into a network that does not have it.\<close>

lemma load_connections_step:
  assumes "dict_in s (neurons net)" and "dict_in t (neurons net)"
    and "CHR ''_'' \<notin> set s" and "CHR ''_'' \<notin> set t"
    and "(s, t) \<notin> fst ` set (connections net)"
    and "- 1 \<le> weight c" and "weight c \<le> 1"
  shows "\<exists>c' wd'. weight c' = weight c \<and> creation_time c' = creation_time c \<and>
     load_connections net ((connection_key (s, t), connection_entry c) # rest) wd =
       load_connections (net\<lparr>connections := connections net @ [((s, t), c')]\<rparr>) rest wd'"
proof -
  let ?c1 = "fst (Connection_init s t (weight c) False wd)"
  let ?wd1 = "snd (Connection_init s t (weight c) False wd)"
  let ?c' = "?c1\<lparr>creation_time := creation_time c\<rparr>"
  have w: "weight ?c' = weight c"
    using assms(6,7) by (simp add: Connection_init_weight)
  have l: "load_connections net ((connection_key (s, t), connection_entry c) # rest) wd =
       load_connections (net\<lparr>connections := connections net @ [((s, t), ?c')]\<rparr>) rest
         (snd (time_time ?wd1))"
    using connect_fresh [OF assms(1,2,5), of "weight c" wd]
      map_of_last [OF assms(5), of ?c1] update_last [OF assms(5), of ?c' ?c1]
    by (simp add: py_split_key [OF assms(3,4)] connection_entry_def get_weight_def case_prod_beta)
  show ?thesis
    using w l by (intro exI [of _ ?c'] exI [of _ "snd (time_time ?wd1)"]) simp
qed


lemma load_connections_result:
  assumes "list_all (\<lambda>kc. dict_in (fst (fst kc)) (neurons net) \<and> dict_in (snd (fst kc)) (neurons net) \<and>
              CHR ''_'' \<notin> set (fst (fst kc)) \<and> CHR ''_'' \<notin> set (snd (fst kc)) \<and>
              - 1 \<le> weight (snd kc) \<and> weight (snd kc) \<le> 1) cs"
    and "distinct (map fst cs)"
    and "fst ` set (connections net) \<inter> set (map fst cs) = {}"
  shows "\<exists>wd1 new.
     load_connections net (map (\<lambda>kc. (connection_key (fst kc), connection_entry (snd kc))) cs) wd =
       Inr (net\<lparr>connections := connections net @ new\<rparr>, wd1) \<and>
     map fst new = map fst cs \<and>
     map (\<lambda>kc. weight (snd kc)) new = map (\<lambda>kc. weight (snd kc)) cs \<and>
     map (\<lambda>kc. creation_time (snd kc)) new = map (\<lambda>kc. creation_time (snd kc)) cs"
  using assms
proof (induction cs arbitrary: net wd)
  case Nil
  show ?case by simp
next
  case (Cons kc cs)
  obtain s t c where kc: "kc = ((s, t), c)" by (cases kc) auto
  have p: "dict_in s (neurons net)" "dict_in t (neurons net)"
    "CHR ''_'' \<notin> set s" "CHR ''_'' \<notin> set t" "- 1 \<le> weight c" "weight c \<le> 1"
    using Cons.prems(1) by (simp_all add: kc)
  have f: "(s, t) \<notin> fst ` set (connections net)"
    using Cons.prems(3) by (auto simp add: kc)
  from load_connections_step [OF p(1,2,3,4) f p(5,6)]
  obtain c' wd' where
    c': "weight c' = weight c" "creation_time c' = creation_time c" and
    l: "load_connections net ((connection_key (s, t), connection_entry c) #
          map (\<lambda>kc. (connection_key (fst kc), connection_entry (snd kc))) cs) wd =
        load_connections (net\<lparr>connections := connections net @ [((s, t), c')]\<rparr>)
          (map (\<lambda>kc. (connection_key (fst kc), connection_entry (snd kc))) cs) wd'"
    by blast
  let ?net' = "net\<lparr>connections := connections net @ [((s, t), c')]\<rparr>"
  have a1: "list_all (\<lambda>kc. dict_in (fst (fst kc)) (neurons ?net') \<and> dict_in (snd (fst kc)) (neurons ?net') \<and>
              CHR ''_'' \<notin> set (fst (fst kc)) \<and> CHR ''_'' \<notin> set (snd (fst kc)) \<and>
              - 1 \<le> weight (snd kc) \<and> weight (snd kc) \<le> 1) cs"
    using Cons.prems(1) by simp
  have a2: "distinct (map fst cs)" using Cons.prems(2) by simp
  have a3: "fst ` set (connections ?net') \<inter> set (map fst cs) = {}"
    using Cons.prems(2,3) by (auto simp add: kc)
  from Cons.IH [OF a1 a2 a3, of wd'] obtain wd1 new where
    r: "load_connections ?net' (map (\<lambda>kc. (connection_key (fst kc), connection_entry (snd kc))) cs) wd' =
       Inr (?net'\<lparr>connections := connections ?net' @ new\<rparr>, wd1)"
      "map fst new = map fst cs"
      "map (\<lambda>kc. weight (snd kc)) new = map (\<lambda>kc. weight (snd kc)) cs"
      "map (\<lambda>kc. creation_time (snd kc)) new = map (\<lambda>kc. creation_time (snd kc)) cs"
    by blast
  show ?case
    using l r c'
    by (intro exI [of _ wd1] exI [of _ "((s, t), c') # new"]) (simp add: kc)
qed

lemma distinct_connection_keys:
  assumes "distinct (map fst cs)"
    and "list_all (\<lambda>kc. CHR ''_'' \<notin> set (fst (fst kc)) \<and> CHR ''_'' \<notin> set (snd (fst kc))) cs"
  shows "distinct (map (\<lambda>kc. connection_key (fst kc)) cs)"
proof -
  have "inj_on connection_key (set (map fst cs))"
  proof (rule inj_onI)
    fix x y
    assume x: "x \<in> set (map fst cs)" and y: "y \<in> set (map fst cs)"
      and e: "connection_key x = connection_key y"
    obtain s t where xs: "x = (s, t)" by (cases x) auto
    obtain s' t' where ys: "y = (s', t')" by (cases y) auto
    have "CHR ''_'' \<notin> set s \<and> CHR ''_'' \<notin> set t \<and> CHR ''_'' \<notin> set s' \<and> CHR ''_'' \<notin> set t'"
      using x y assms(2) by (auto simp add: list_all_iff xs ys)
    then show "x = y"
      using connection_key_inj [of s t s' t'] e by (simp add: xs ys)
  qed
  then have "distinct (map connection_key (map fst cs))"
    unfolding distinct_map [of connection_key "map fst cs"] using assms(1) by blast
  then show ?thesis by (simp add: comp_def)
qed

lemma underscore_network_eq:
  "underscore_network =
     \<lparr>config = Config_init,
      neurons = [(''A'', Neuron_init ''A'' None ''default'' None),
                 (''novel_0'', Neuron_init ''novel_0'' None ''novelty'' None)],
      connections = [((''novel_0'', ''A''),
         \<lparr>source = ''novel_0'', target = ''A'', weight = 3 / 10, last_update = 4, creation_time = 3,
          weight_history = [(5, 3 / 10)], bidirectional = False\<rparr>)],
      state = [(''A'', PInt 80), (''novel_0'', PInt 50)],
      network_creation_time = 0, last_update_time = 1, update_count = 0,
      excluded_neurons = [], learning = None, neurogenesis_helper = None\<rparr>"
  by (simp add: underscore_network_def Network_init_def sample_world_def time_time_def
      add_neuron_def dict_in_def connect_def Connection_init_def set_weight_def Let_def)

lemma tuple_state_network_eq:
  "tuple_state_network =
     \<lparr>config = Config_init,
      neurons = [(''A'', Neuron_init ''A'' None ''default'' None)],
      connections = [],
      state = [(''A'', PTuple [PInt 1, PInt 2])],
      network_creation_time = 0, last_update_time = 1, update_count = 0,
      excluded_neurons = [], learning = None, neurogenesis_helper = None\<rparr>"
  by (simp add: tuple_state_network_def Network_init_def sample_world_def time_time_def
      add_neuron_def dict_in_def Let_def)

lemma set_state_network_eq:
  "set_state_network =
     \<lparr>config = Config_init,
      neurons = [(''A'', Neuron_init ''A'' None ''default'' None)],
      connections = [],
      state = [(''A'', PSet [PInt 1])],
      network_creation_time = 0, last_update_time = 1, update_count = 0,
      excluded_neurons = [], learning = None, neurogenesis_helper = None\<rparr>"
  by (simp add: set_state_network_def Network_init_def sample_world_def time_time_def
      add_neuron_def dict_in_def Let_def)

lemma save_underscore_network:
  "save underscore_network True Missing =
     (True, Document
        \<lparr>j_neurons = Some [(''A'', \<lparr>j_position = Some (0, 0), j_type = Some ''default'',
                                     j_attributes = Some []\<rparr>),
                            (''novel_0'', \<lparr>j_position = Some (0, 0), j_type = Some ''novelty'',
                                           j_attributes = Some []\<rparr>)],
         j_connections = Some [(''novel_0_A'', \<lparr>j_weight = Some (3 / 10),
                                                 j_creation_time = Some 3\<rparr>)],
         j_state = Some [(''A'', PInt 80), (''novel_0'', PInt 50)],
         j_config = Some \<lparr>j_hebbian = Some (hebbian Config_init),
                          j_neurogenesis = Some (neurogenesis Config_init)\<rparr>,
         j_metadata = Some \<lparr>j_meta_creation_time = Some 0, j_last_update = Some 1,
                            j_update_count = Some 0\<rparr>\<rparr>)"
  by (simp add: underscore_network_eq save_def neuron_entry_def json_dict_def Neuron_init_def
      get_position_def connection_key_def connection_entry_def get_weight_def)

lemma save_tuple_state_network:
  "save tuple_state_network True Missing =
     (True, Document
        \<lparr>j_neurons = Some [(''A'', \<lparr>j_position = Some (0, 0), j_type = Some ''default'',
                                     j_attributes = Some []\<rparr>)],
         j_connections = Some [],
         j_state = Some [(''A'', PList [PInt 1, PInt 2])],
         j_config = Some \<lparr>j_hebbian = Some (hebbian Config_init),
                          j_neurogenesis = Some (neurogenesis Config_init)\<rparr>,
         j_metadata = Some \<lparr>j_meta_creation_time = Some 0, j_last_update = Some 1,
                            j_update_count = Some 0\<rparr>\<rparr>)"
  by (simp add: tuple_state_network_eq save_def neuron_entry_def json_dict_def Neuron_init_def
      get_position_def)

lemma save_scenario_network:
  "save scenario_network True Missing =
     (True, Document
        \<lparr>j_neurons = Some [(''A'', \<lparr>j_position = Some (0, 0), j_type = Some ''default'',
                                     j_attributes = Some []\<rparr>),
                            (''B'', \<lparr>j_position = Some (0, 0), j_type = Some ''default'',
                                     j_attributes = Some []\<rparr>)],
         j_connections = Some [(''A_B'', \<lparr>j_weight = Some (1 / 2), j_creation_time = Some 3\<rparr>)],
         j_state = Some [(''A'', PInt 80), (''B'', PInt 90)],
         j_config = Some \<lparr>j_hebbian = Some (hebbian Config_init),
                          j_neurogenesis = Some (neurogenesis Config_init)\<rparr>,
         j_metadata = Some \<lparr>j_meta_creation_time = Some 0, j_last_update = Some 1,
                            j_update_count = Some 0\<rparr>\<rparr>)"
  by (simp add: scenario_network_eq save_def neuron_entry_def json_dict_def Neuron_init_def
      get_position_def connection_key_def connection_entry_def get_weight_def)

text \<open>
  Claim C5, as stated for every network, fails, in these ways. The key of a connection
  is split at every underscore: the network with the neurons \<open>A\<close> and \<open>novel_0\<close> and
  the connection from \<open>novel_0\<close> to \<open>A\<close> is saved, \<open>save\<close> returns \<open>True\<close>, the key
  \<open>novel_0_A\<close> splits into three parts and \<open>load\<close> returns \<open>None\<close>. A tuple comes
  back from the file as a list: the network whose neuron \<open>A\<close> has the state \<open>(1, 2)\<close>
  is saved and loaded, and the state of \<open>A\<close> in the loaded network is \<open>[1, 2]\<close>; in
  the same way the positions \<open>(0, 0)\<close> of the two neurons of the scenario network are
  \<open>[0, 0]\<close> in the loaded network. A set cannot be written: for the network whose
  neuron \<open>A\<close> has the state \<open>{1}\<close>, \<open>save\<close> returns \<open>False\<close> and \<open>load\<close> returns
  \<open>None\<close>. When the path cannot be written and there is no file, \<open>save\<close> returns
  \<open>False\<close> and \<open>load\<close> returns \<open>None\<close>.
\<close>

theorem save_load_round_trip_counterexample:
  "dict_keys (neurons underscore_network) = [''A'', ''novel_0''] \<and>
   map (\<lambda>kc. (fst kc, weight (snd kc))) (connections underscore_network) =
     [((''novel_0'', ''A''), 3 / 10)] \<and>
   fst (save underscore_network True Missing) = True \<and>
   load (snd (save underscore_network True Missing)) sample_world = None \<and>
   state tuple_state_network = [(''A'', PTuple [PInt 1, PInt 2])] \<and>
   fst (save tuple_state_network True Missing) = True \<and>
   map_option (\<lambda>r. state (fst r)) (load (snd (save tuple_state_network True Missing)) sample_world) =
     Some [(''A'', PList [PInt 1, PInt 2])] \<and>
   map (\<lambda>kn. position (snd kn)) (neurons scenario_network) = [PosTuple 0 0, PosTuple 0 0] \<and>
   fst (save scenario_network True Missing) = True \<and>
   map_option (\<lambda>r. map (\<lambda>kn. position (snd kn)) (neurons (fst r)))
       (load (snd (save scenario_network True Missing)) sample_world) =
     Some [PosList 0 0, PosList 0 0] \<and>
   state set_state_network = [(''A'', PSet [PInt 1])] \<and>
   fst (save set_state_network True Missing) = False \<and>
   load (snd (save set_state_network True Missing)) sample_world = None \<and>
   fst (save scenario_network False Missing) = False \<and>
   load (snd (save scenario_network False Missing)) sample_world = None"
proof -
  have u: "dict_keys (neurons underscore_network) = [''A'', ''novel_0'']"
    "map (\<lambda>kc. (fst kc, weight (snd kc))) (connections underscore_network) =
       [((''novel_0'', ''A''), 3 / 10)]"
    by (simp_all add: underscore_network_eq dict_keys_def)
  have ul: "load (snd (save underscore_network True Missing)) sample_world = None"
    by (simp add: save_underscore_network load_data_def Let_def Network_init_def time_time_def
        add_neuron_def dict_in_def)
  have t: "state tuple_state_network = [(''A'', PTuple [PInt 1, PInt 2])]"
    by (simp add: tuple_state_network_eq)
  have tl: "map_option (\<lambda>r. state (fst r))
       (load (snd (save tuple_state_network True Missing)) sample_world) =
     Some [(''A'', PList [PInt 1, PInt 2])]"
    by (simp add: save_tuple_state_network load_data_def Let_def Network_init_def time_time_def
        add_neuron_def dict_in_def)
  have p: "map (\<lambda>kn. position (snd kn)) (neurons scenario_network) = [PosTuple 0 0, PosTuple 0 0]"
    by (simp add: scenario_network_eq Neuron_init_def)
  have pl: "map_option (\<lambda>r. map (\<lambda>kn. position (snd kn)) (neurons (fst r)))
       (load (snd (save scenario_network True Missing)) sample_world) =
     Some [PosList 0 0, PosList 0 0]"
    by (simp add: save_scenario_network load_data_def Let_def Network_init_def time_time_def
        add_neuron_def dict_in_def connect_def Connection_init_def set_weight_def Neuron_init_def)
  have s: "state set_state_network = [(''A'', PSet [PInt 1])]"
    by (simp add: set_state_network_eq)
  have sl: "save set_state_network True Missing = (False, Rejected)"
    by (simp add: set_state_network_eq save_def neuron_entry_def json_dict_def Neuron_init_def)
  have w: "save scenario_network False Missing = (False, Missing)"
    by (simp add: save_def)
  show ?thesis
    using u ul t tl p pl s
    by (simp add: save_underscore_network save_tuple_state_network save_scenario_network sl w)
qed

text \<open>
  Claim C5, amended. Take a network whose dictionaries have distinct keys, whose
  connections join neurons of the network, whose stored weights lie in \<open>[-1, 1]\<close>, in
  which no endpoint of a connection has an underscore in its name, and in which every
  value of the state and of the attributes of a neuron comes back from a JSON file as
  it was written (a number, a boolean, a string, \<open>None\<close>, or a list of such values).
  Then, whatever the file held before, \<open>save\<close> to a path that can be written returns
  \<open>True\<close>, and \<open>load\<close> of the file succeeds and gives a network with the same neuron
  names in the same order, each with the same position coordinates, type and
  attributes, the same connections with the same weights, the same state and the same
  Hebbian and neurogenesis configuration.
\<close>

theorem save_load_round_trip:
  assumes "distinct (dict_keys (neurons net))" and "distinct (dict_keys (connections net))"
    and "list_all (\<lambda>kc. dict_in (fst (fst kc)) (neurons net) \<and> dict_in (snd (fst kc)) (neurons net))
           (connections net)"
    and "list_all (\<lambda>kc. CHR ''_'' \<notin> set (fst (fst kc)) \<and> CHR ''_'' \<notin> set (snd (fst kc)))
           (connections net)"
    and "weights_in_range net"
    and "list_all (\<lambda>kv. json_value (snd kv) = Some (snd kv)) (state net)"
    and "list_all (\<lambda>kn. list_all (\<lambda>kv. json_value (snd kv) = Some (snd kv)) (attributes (snd kn)))
           (neurons net)"
  shows "\<exists>net' wd'. fst (save net True old) = True \<and>
     load (snd (save net True old)) wd = Some (net', wd') \<and>
     dict_keys (neurons net') = dict_keys (neurons net) \<and>
     map (\<lambda>kn. (fst kn, coordinates (position (snd kn)), neuron_type (snd kn), attributes (snd kn))) (neurons net') =
       map (\<lambda>kn. (fst kn, coordinates (position (snd kn)), neuron_type (snd kn), attributes (snd kn))) (neurons net) \<and>
     map (\<lambda>kc. (fst kc, weight (snd kc))) (connections net') =
       map (\<lambda>kc. (fst kc, weight (snd kc))) (connections net) \<and>
     state net' = state net \<and>
     hebbian (config net') = hebbian (config net) \<and>
     neurogenesis (config net') = neurogenesis (config net)"
proof -
  let ?cfg = "Config_init\<lparr>hebbian := hebbian (config net), neurogenesis := neurogenesis (config net)\<rparr>"
  let ?net0 = "fst (Network_init (Some ?cfg) wd)"
  let ?wd2 = "snd (time_time (snd (time_time (snd (Network_init (Some ?cfg) wd)))))"
  let ?net1 = "?net0\<lparr>network_creation_time := network_creation_time net,
                      last_update_time := last_update_time net,
                      update_count := update_count net\<rparr>"
  let ?js = "map (\<lambda>(nm, n). (nm, \<lparr>j_position = Some (coordinates (get_position n)),
                                    j_type = Some (neuron_type n),
                                   j_attributes = Some (attributes n)\<rparr>)) (neurons net)"
  let ?es = "map (\<lambda>kc. (connection_key (fst kc), connection_entry (snd kc))) (connections net)"
  let ?doc = "\<lparr>j_neurons = Some ?js, j_connections = Some ?es, j_state = Some (state net),
      j_config = Some \<lparr>j_hebbian = Some (hebbian (config net)),
                       j_neurogenesis = Some (neurogenesis (config net))\<rparr>,
      j_metadata = Some \<lparr>j_meta_creation_time = Some (network_creation_time net),
                         j_last_update = Some (last_update_time net),
                         j_update_count = Some (update_count net)\<rparr>\<rparr>"
  have n0: "neurons ?net1 = []" "connections ?net1 = []" "config ?net1 = ?cfg"
    by (simp_all add: Network_init_def time_time_def)
  have sv: "fold (\<lambda>(k, conn). AList.update (connection_key k) (connection_entry conn))
      (connections net) [] = ?es"
    using save_fold [OF distinct_connection_keys [OF assms(2) [unfolded dict_keys_def] assms(4)], of "[]"]
    by simp
  have sd: "save net True old = (True, Document ?doc)"
    by (simp add: save_def neuron_entries_unchanged [OF assms(7)]
        json_dict_unchanged [OF assms(6)] sv)
  have fj: "map fst ?js = dict_keys (neurons net)"
    by (simp add: dict_keys_def case_prod_beta comp_def)
  have dj: "distinct (map fst ?js)"
    using assms(1) by (simp only: fj)
  have di: "fst ` set (neurons ?net1) \<inter> set (map fst ?js) = {}"
    by (simp add: n0)
  from load_neurons_result [OF dj di] obtain net2 where
    l2: "load_neurons ?net1 ?js = Inr net2"
      "neurons net2 = neurons ?net1 @
         map (\<lambda>(nm, nd). (nm, Neuron_init nm (map_option (\<lambda>(x, y). PosList x y) (j_position nd))
                (case j_type nd of None \<Rightarrow> ''default'' | Some ty \<Rightarrow> ty)
                (Some (case j_attributes nd of None \<Rightarrow> [] | Some a \<Rightarrow> a)))) ?js"
      "connections net2 = connections ?net1" "config net2 = config ?net1"
    by blast
  have k2: "dict_keys (neurons net2) = dict_keys (neurons net)"
    by (simp add: l2(2) n0 dict_keys_def case_prod_beta comp_def)
  have ks: "fst ` set (neurons net2) = fst ` set (neurons net)"
    using arg_cong [OF k2, of set] by (simp add: dict_keys_def)
  have a1: "list_all (\<lambda>kc. dict_in (fst (fst kc)) (neurons net2) \<and> dict_in (snd (fst kc)) (neurons net2) \<and>
              CHR ''_'' \<notin> set (fst (fst kc)) \<and> CHR ''_'' \<notin> set (snd (fst kc)) \<and>
              - 1 \<le> weight (snd kc) \<and> weight (snd kc) \<le> 1) (connections net)"
    using assms(3,4,5) ks
    by (auto simp add: list_all_iff weights_in_range_def dict_in_def map_of_eq_None_iff)
  have a3: "fst ` set (connections net2) \<inter> set (map fst (connections net)) = {}"
    by (simp add: l2(3) n0)
  from load_connections_result [OF a1 assms(2) [unfolded dict_keys_def] a3, of ?wd2]
  obtain wd3 new where
    l3: "load_connections net2 ?es ?wd2 = Inr (net2\<lparr>connections := connections net2 @ new\<rparr>, wd3)"
      "map fst new = map fst (connections net)"
      "map (\<lambda>kc. weight (snd kc)) new = map (\<lambda>kc. weight (snd kc)) (connections net)"
    by blast
  let ?net' = "net2\<lparr>connections := connections net2 @ new, state := state net\<rparr>"
  have ld: "load_data ?doc wd = Some (?net', wd3)"
    using l2(1) l3(1)
    by (simp add: load_data_def Let_def case_prod_beta)
  have kw: "map (\<lambda>kc. (fst kc, weight (snd kc))) new =
      map (\<lambda>kc. (fst kc, weight (snd kc))) (connections net)"
    using l3(2,3) by (simp add: list_eq_iff_nth_eq)
  have nn: "map (\<lambda>kn. (fst kn, coordinates (position (snd kn)), neuron_type (snd kn), attributes (snd kn))) (neurons net2) =
       map (\<lambda>kn. (fst kn, coordinates (position (snd kn)), neuron_type (snd kn), attributes (snd kn))) (neurons net)"
    by (simp add: l2(2) n0 comp_def Neuron_init_def get_position_def coordinates_list
        case_prod_beta)
  show ?thesis
    using ld k2 kw nn l2(3,4) n0
    by (intro exI [of _ ?net'] exI [of _ wd3]) (simp add: sd)
qed

theorem save_load_round_trip_witness:
  "distinct (dict_keys (neurons scenario_network)) \<and>
   distinct (dict_keys (connections scenario_network)) \<and>
   list_all (\<lambda>kc. dict_in (fst (fst kc)) (neurons scenario_network) \<and>
                  dict_in (snd (fst kc)) (neurons scenario_network))
     (connections scenario_network) \<and>
   list_all (\<lambda>kc. CHR ''_'' \<notin> set (fst (fst kc)) \<and> CHR ''_'' \<notin> set (snd (fst kc)))
     (connections scenario_network) \<and>
   weights_in_range scenario_network \<and>
   list_all (\<lambda>kv. json_value (snd kv) = Some (snd kv)) (state scenario_network) \<and>
   list_all (\<lambda>kn. list_all (\<lambda>kv. json_value (snd kv) = Some (snd kv)) (attributes (snd kn)))
     (neurons scenario_network) \<and>
   (\<exists>net' wd'. fst (save scenario_network True Missing) = True \<and>
      load (snd (save scenario_network True Missing)) sample_world = Some (net', wd') \<and>
      dict_keys (neurons net') = [''A'', ''B''] \<and>
      map (\<lambda>kc. (fst kc, weight (snd kc))) (connections net') = [((''A'', ''B''), 1 / 2)] \<and>
      state net' = [(''A'', PInt 80), (''B'', PInt 90)] \<and>
      hebbian (config net') = hebbian Config_init \<and>
      neurogenesis (config net') = neurogenesis Config_init)"
proof -
  have a: "distinct (dict_keys (neurons scenario_network))"
    "distinct (dict_keys (connections scenario_network))"
    "list_all (\<lambda>kc. dict_in (fst (fst kc)) (neurons scenario_network) \<and>
                  dict_in (snd (fst kc)) (neurons scenario_network))
       (connections scenario_network)"
    "list_all (\<lambda>kc. CHR ''_'' \<notin> set (fst (fst kc)) \<and> CHR ''_'' \<notin> set (snd (fst kc)))
       (connections scenario_network)"
    "weights_in_range scenario_network"
    "list_all (\<lambda>kv. json_value (snd kv) = Some (snd kv)) (state scenario_network)"
    "list_all (\<lambda>kn. list_all (\<lambda>kv. json_value (snd kv) = Some (snd kv)) (attributes (snd kn)))
       (neurons scenario_network)"
    by (simp_all add: scenario_network_eq dict_keys_def dict_in_def weights_in_range_def
        Neuron_init_def)
  have f: "dict_keys (neurons scenario_network) = [''A'', ''B'']"
    "map (\<lambda>kc. (fst kc, weight (snd kc))) (connections scenario_network) = [((''A'', ''B''), 1 / 2)]"
    "state scenario_network = [(''A'', PInt 80), (''B'', PInt 90)]"
    "config scenario_network = Config_init"
    by (simp_all add: scenario_network_eq dict_keys_def)
  from save_load_round_trip [OF a, of Missing sample_world] obtain net' wd' where
    r: "fst (save scenario_network True Missing) = True"
      "load (snd (save scenario_network True Missing)) sample_world = Some (net', wd')"
      "dict_keys (neurons net') = dict_keys (neurons scenario_network)"
      "map (\<lambda>kc. (fst kc, weight (snd kc))) (connections net') =
         map (\<lambda>kc. (fst kc, weight (snd kc))) (connections scenario_network)"
      "state net' = state scenario_network"
      "hebbian (config net') = hebbian (config scenario_network)"
      "neurogenesis (config net') = neurogenesis (config scenario_network)"
    by blast
  show ?thesis
    using a r f by (intro conjI exI [of _ net'] exI [of _ wd']) simp_all
qed

end
